theory Spec2Isabelle
  imports Main "HOL-Library.Char_ord" "HOL-Library.List_Lexorder"
begin

section \<open>The sharded changelog store: data model\<close>

text \<open>
  The development embeds \<^verbatim>\<open>src/db/shard_manager.py\<close>, the part of
  \<^verbatim>\<open>src/db/db_schema.py\<close> that creates a shard, and the migration runner
  \<^verbatim>\<open>scripts/migrate_to_sharded.py\<close>.

  Python methods whose name starts with an underscore carry the prefix \<open>u_\<close> here
  (\<open>_load_index\<close> is \<open>u_load_index\<close>), since an Isabelle name starts with a letter.

  Page ids are modelled after the source's normalisation to \<open>str\<close>
  (\<^verbatim>\<open>if isinstance(page_id, bytes): page_id = page_id.decode('utf-8')\<close>): a key is a
  string.
\<close>

type_synonym path = string
type_synonym key = string

text \<open>
  A row of the \<open>entries\<close> table, as far as the storage layer looks at it: the primary
  key \<open>id\<close>, the unique \<open>page_id\<close>, and \<open>row_bytes\<close>, the number of bytes by which
  storing the record (with its metadata rows) grows the shard file. The storage engine
  decides that number; the source only observes the file size.
\<close>

record entry =
  entry_id :: int
  page_id :: key
  row_bytes :: nat

text \<open>
  What SQLite finds in a file: something that is not a database (every statement raises
  \<open>DatabaseError\<close>), a database without the \<open>entries\<close> table (what
  \<^verbatim>\<open>sqlite3.connect\<close> leaves behind on a path that did not exist), or a database with
  the schema of \<^verbatim>\<open>init_db\<close> and the rows of its \<open>entries\<close> table.
\<close>

datatype db_content = Corrupt | Empty_db | Tables "entry list"

record shard_file =
  st_size :: nat
  st_mtime :: nat
  content :: db_content

datatype exn =
  OperationalError | DatabaseError | IntegrityError | ValueError | ZeroDivisionError | OSError
  | KeyboardInterrupt

text \<open>The wall clock: the year and month name a new shard, \<open>stamp\<close> is the rest of the time.\<close>

record clock =
  year :: nat
  month :: nat
  stamp :: nat

datatype 'a json_file = Unparsable | Parsed 'a

record checkpoint =
  last_batch :: int
  entries_processed :: int
  last_timestamp :: clock
  processed_page_ids :: "key list"
  current_shard :: path

text \<open>What a write of a JSON file does: it succeeds, it is refused before the file is
  opened (the file stays as it was), or it fails after \<^verbatim>\<open>open(path, 'w')\<close> has
  truncated the file (an unparsable file is left).\<close>

datatype write_outcome = Written | Refused | Truncated

text \<open>
  Everything outside the process. Database files are kept by absolute path in a list, so
  that a directory can be listed; the two JSON files (the shard index and the migration
  checkpoint) are kept apart from them. The three oracles give the environment's decisions
  in the order in which the program asks for them: \<open>faults\<close> one per access of the
  storage engine to a shard (an insertion attempt of the migration, a scan of
  \<open>rebuild_index\<close>), namely the exception the engine raises there, if any;
  \<open>write_outcomes\<close> one per write or removal of a JSON file; \<open>interrupts\<close> one per call
  of \<^verbatim>\<open>time.sleep\<close> (whether the operator cancels during it). An exhausted oracle
  means no fault. \<open>slept\<close> records the arguments of \<^verbatim>\<open>time.sleep\<close>.

  \<open>stat_fails\<close> holds the absolute paths of metadata files on which the system call
  \<open>stat\<close> fails with an error other than "no such file": a name that is too long, a
  directory that may not be searched. \<^verbatim>\<open>Path.exists()\<close> raises \<open>OSError\<close> there
  and \<^verbatim>\<open>os.path.exists\<close> returns \<open>False\<close>. For database files the model takes
  \<open>stat\<close> to succeed (\<open>path_exists\<close> below).
\<close>

record world =
  cwd :: path
  now :: clock
  schema_bytes :: nat
  files :: "(path \<times> shard_file) list"
  index_files :: "path \<rightharpoonup> (key \<rightharpoonup> path) json_file"
  checkpoint_files :: "path \<rightharpoonup> checkpoint json_file"
  faults :: "exn option list"
  write_outcomes :: "write_outcome list"
  interrupts :: "bool list"
  slept :: "nat list"
  stat_fails :: "path \<Rightarrow> bool"

subsection \<open>Paths and files\<close>

text \<open>\<^verbatim>\<open>Path(p).resolve()\<close>, for paths without symbolic links and dot segments:
  a relative path is taken from the working directory.\<close>

definition resolve :: "world \<Rightarrow> path \<Rightarrow> path" where
  "resolve w p = (if take 1 p = ''/'' then p else cwd w @ ''/'' @ p)"

text \<open>\<^verbatim>\<open>base_path / name\<close>, for a base path written without a trailing slash.\<close>

definition join :: "path \<Rightarrow> string \<Rightarrow> path" where
  "join d n = d @ ''/'' @ n"

definition stat :: "world \<Rightarrow> path \<Rightarrow> shard_file option" where
  "stat w p = map_of (files w) (resolve w p)"


fun put :: "path \<Rightarrow> shard_file \<Rightarrow> (path \<times> shard_file) list \<Rightarrow> (path \<times> shard_file) list" where
  "put q f [] = [(q, f)]"
| "put q f ((q', f') # fs) = (if q = q' then (q, f) # fs else (q', f') # put q f fs)"

definition write_file :: "world \<Rightarrow> path \<Rightarrow> shard_file \<Rightarrow> world" where
  "write_file w p f = w\<lparr>files := put (resolve w p) f (files w)\<rparr>"

text \<open>The names of the files of a directory: the entries below \<open>d\<close> with no further slash.\<close>

definition name_in :: "path \<Rightarrow> path \<Rightarrow> string list" where
  "name_in d q =
     (let pre = d @ ''/''; n = drop (length pre) q
      in if take (length pre) q = pre \<and> n \<noteq> [] \<and> CHR ''/'' \<notin> set n then [n] else [])"

definition startswith :: "string \<Rightarrow> string \<Rightarrow> bool" where
  "startswith s pre = (take (length pre) s = pre)"

definition endswith :: "string \<Rightarrow> string \<Rightarrow> bool" where
  "endswith s suf = (length suf \<le> length s \<and> drop (length s - length suf) s = suf)"

text \<open>\<^verbatim>\<open>glob("changelog_*.db")\<close> matches the names that start with \<open>changelog_\<close> and
  end with \<open>.db\<close> (the two cannot overlap), which is also the filter the source applies
  to the result.\<close>

definition is_shard_name :: "string \<Rightarrow> bool" where
  "is_shard_name n = (startswith n ''changelog_'' \<and> endswith n ''.db'')"

subsection \<open>ShardIndex\<close>

text \<open>The index object is its in-memory dictionary \<open>page_to_shard\<close>; its file is at
  \<open>index_path\<close>. Both live in the router record below.\<close>

text \<open>\<^verbatim>\<open>json.load\<close> on an open file: a parse failure raises \<open>ValueError\<close>.\<close>

definition json_load :: "'a json_file \<Rightarrow> exn + 'a" where
  "json_load j = (case j of Parsed v \<Rightarrow> Inr v | Unparsable \<Rightarrow> Inl ValueError)"

text \<open>
  \<open>_load_index\<close>, with the mapping it leaves in \<open>page_to_shard\<close> as its result. The
  test \<^verbatim>\<open>self.index_path.exists()\<close> stands before the \<^verbatim>\<open>try\<close>: where \<open>stat\<close>
  fails it raises \<open>OSError\<close> to the caller. Inside the \<^verbatim>\<open>try\<close> every exception
  of reading and parsing is caught and the mapping is empty.
\<close>

definition u_load_index :: "path \<Rightarrow> world \<Rightarrow> exn + (key \<rightharpoonup> path)" where
  "u_load_index index_path w =
     (if stat_fails w (resolve w index_path) then Inl OSError
      else (case index_files w (resolve w index_path) of
              Some j \<Rightarrow> (case json_load j of Inr m \<Rightarrow> Inr m | Inl e \<Rightarrow> Inr Map.empty)
            | None \<Rightarrow> Inr Map.empty))"

definition next_write :: "world \<Rightarrow> write_outcome \<times> world" where
  "next_write w =
     (case write_outcomes w of
        [] \<Rightarrow> (Written, w)
      | x # xs \<Rightarrow> (x, w\<lparr>write_outcomes := xs\<rparr>))"

text \<open>\<^verbatim>\<open>ShardIndex.save\<close>: any exception of the write is logged and swallowed.\<close>

definition save :: "path \<Rightarrow> (key \<rightharpoonup> path) \<Rightarrow> world \<Rightarrow> world" where
  "save index_path m w =
     (case next_write w of
        (Written, w') \<Rightarrow> w'\<lparr>index_files := (index_files w')(resolve w' index_path \<mapsto> Parsed m)\<rparr>
      | (Refused, w') \<Rightarrow> w'
      | (Truncated, w') \<Rightarrow> w'\<lparr>index_files := (index_files w')(resolve w' index_path \<mapsto> Unparsable)\<rparr>)"

subsection \<open>ShardedChangelogDB\<close>

record router =
  base_path :: path
  shard_size_limit_bytes :: int
  page_to_shard :: "key \<rightharpoonup> path"
  current_shard_path :: path

definition index_path :: "router \<Rightarrow> path" where
  "index_path r = join (base_path r) ''shard_index.json''"

definition add_page :: "key \<Rightarrow> path \<Rightarrow> router \<Rightarrow> world \<Rightarrow> router \<times> world" where
  "add_page k shard_path r w =
     (let normalized_path = resolve w shard_path
      in if page_to_shard r k \<noteq> Some normalized_path
         then (let r' = r\<lparr>page_to_shard := (page_to_shard r)(k \<mapsto> normalized_path)\<rparr>
               in (r', save (index_path r') (page_to_shard r') w))
         else (r, w))"

definition get_shard_for_page :: "router \<Rightarrow> key \<Rightarrow> path option" where
  "get_shard_for_page r k = page_to_shard r k"

text \<open>\<^verbatim>\<open>_get_all_shard_paths\<close>: the shard files of the base directory, sorted. A
  directory that does not exist has no files, so the source's early return of the empty
  list is the same listing.\<close>

definition u_get_all_shard_paths :: "router \<Rightarrow> world \<Rightarrow> path list" where
  "u_get_all_shard_paths r w =
     map (join (base_path r))
       (sort (filter is_shard_name
          (concat (map (\<lambda>(q, f). name_in (resolve w (base_path r)) q) (files w)))))"


definition u_check_shard_size :: "router \<Rightarrow> path \<Rightarrow> world \<Rightarrow> bool" where
  "u_check_shard_size r shard_path w =
     (case stat w shard_path of
        None \<Rightarrow> False
      | Some f \<Rightarrow> shard_size_limit_bytes r \<le> int (st_size f))"


subsection \<open>Creating a shard\<close>

definition digit_char :: "nat \<Rightarrow> char" where
  "digit_char d = ''0123456789'' ! d"

fun show_nat :: "nat \<Rightarrow> string" where
  "show_nat n = (if n < 10 then [digit_char n] else show_nat (n div 10) @ [digit_char (n mod 10)])"

declare show_nat.simps [simp del]

text \<open>The format \<^verbatim>\<open>{now.month:02d}\<close>: at least two digits, padded with a zero.\<close>

definition pad2 :: "nat \<Rightarrow> string" where
  "pad2 n = (if n < 10 then ''0'' @ show_nat n else show_nat n)"

definition new_shard_name :: "clock \<Rightarrow> string" where
  "new_shard_name c = ''changelog_'' @ show_nat (year c) @ ''_'' @ pad2 (month c) @ ''.db''"

text \<open>
  \<^verbatim>\<open>init_db(db_path)\<close>: every statement is \<^verbatim>\<open>CREATE ... IF NOT EXISTS\<close>. On a
  path without a file a database with the empty schema is created; a database that has the
  tables is left as it is; a file that is not a database makes the first statement raise.
\<close>

definition init_db :: "path \<Rightarrow> world \<Rightarrow> exn + world" where
  "init_db db_path w =
     (case stat w db_path of
        None \<Rightarrow>
          Inr (write_file w db_path
                 \<lparr>st_size = schema_bytes w, st_mtime = stamp (now w), content = Tables []\<rparr>)
      | Some f \<Rightarrow>
          (case content f of
             Corrupt \<Rightarrow> Inl DatabaseError
           | Empty_db \<Rightarrow>
               Inr (write_file w db_path
                      (f\<lparr>st_size := schema_bytes w, st_mtime := stamp (now w), content := Tables []\<rparr>))
           | Tables rows \<Rightarrow> Inr w))"

definition u_create_new_shard :: "router \<Rightarrow> world \<Rightarrow> exn + (path \<times> world)" where
  "u_create_new_shard r w =
     (let new_shard_path = join (base_path r) (new_shard_name (now w))
      in case init_db new_shard_path w of
           Inl e \<Rightarrow> Inl e
         | Inr w' \<Rightarrow> Inr (new_shard_path, w'))"

definition get_shard_for_writing :: "router \<Rightarrow> world \<Rightarrow> exn + (path \<times> router \<times> world)" where
  "get_shard_for_writing r w =
     (if u_check_shard_size r (current_shard_path r) w
      then (case u_create_new_shard r w of
              Inl e \<Rightarrow> Inl e
            | Inr (p, w') \<Rightarrow> Inr (p, r\<lparr>current_shard_path := p\<rparr>, w'))
      else Inr (current_shard_path r, r, w))"

definition should_create_new_shard :: "router \<Rightarrow> world \<Rightarrow> bool" where
  "should_create_new_shard r w = u_check_shard_size r (current_shard_path r) w"

definition create_new_shard :: "router \<Rightarrow> world \<Rightarrow> exn + (path \<times> router \<times> world)" where
  "create_new_shard r w =
     (case u_create_new_shard r w of
        Inl e \<Rightarrow> Inl e
      | Inr (p, w') \<Rightarrow> Inr (p, r\<lparr>current_shard_path := p\<rparr>, w'))"

subsection \<open>Construction and the singleton\<close>

definition mtime_of :: "world \<Rightarrow> path \<Rightarrow> nat" where
  "mtime_of w p = (case stat w p of Some f \<Rightarrow> st_mtime f | None \<Rightarrow> 0)"

text \<open>\<^verbatim>\<open>max(shards, key=...)\<close> returns the first of the largest elements.\<close>

fun max_by :: "('a \<Rightarrow> nat) \<Rightarrow> 'a \<Rightarrow> 'a list \<Rightarrow> 'a" where
  "max_by k best [] = best"
| "max_by k best (x # xs) = max_by k (if k best < k x then x else best) xs"

definition u_get_or_create_current_shard :: "router \<Rightarrow> world \<Rightarrow> exn + (path \<times> world)" where
  "u_get_or_create_current_shard r w =
     (case u_get_all_shard_paths r w of
        [] \<Rightarrow> u_create_new_shard r w
      | s # ss \<Rightarrow>
          (let most_recent_shard = max_by (mtime_of w) s ss
           in if u_check_shard_size r most_recent_shard w then u_create_new_shard r w
              else Inr (most_recent_shard, w)))"

text \<open>\<^verbatim>\<open>ShardedChangelogDB.__init__\<close>.\<close>

definition ShardedChangelogDB :: "path \<Rightarrow> int \<Rightarrow> world \<Rightarrow> exn + (router \<times> world)" where
  "ShardedChangelogDB base shard_size_limit_mb w =
     (case u_load_index (join base ''shard_index.json'') w of
        Inl e \<Rightarrow> Inl e
      | Inr m \<Rightarrow>
          (let r = \<lparr>base_path = base,
                    shard_size_limit_bytes = shard_size_limit_mb * 1024 * 1024,
                    page_to_shard = m,
                    current_shard_path = []\<rparr>
           in case u_get_or_create_current_shard r w of
                Inl e \<Rightarrow> Inl e
              | Inr (p, w') \<Rightarrow> Inr (r\<lparr>current_shard_path := p\<rparr>, w')))"

text \<open>\<^verbatim>\<open>get_shard_manager\<close>: the module global \<open>_shard_manager_instance\<close> is the
  \<open>router option\<close> that is passed in and returned.\<close>

definition get_shard_manager ::
  "path \<Rightarrow> int \<Rightarrow> router option \<Rightarrow> world \<Rightarrow> exn + (router \<times> router option \<times> world)" where
  "get_shard_manager base shard_size_limit_mb inst w =
     (case inst of
        None \<Rightarrow>
          (case ShardedChangelogDB base shard_size_limit_mb w of
             Inl e \<Rightarrow> Inl e
           | Inr (r, w') \<Rightarrow> Inr (r, Some r, w'))
      | Some r \<Rightarrow> Inr (r, Some r, w))"

subsection \<open>The migration checkpoint\<close>

definition default_checkpoint :: "world \<Rightarrow> checkpoint" where
  "default_checkpoint w =
     \<lparr>last_batch = 0, entries_processed = 0, last_timestamp = now w,
      processed_page_ids = [], current_shard = []\<rparr>"

text \<open>\<^verbatim>\<open>os.path.exists\<close> on the path of a checkpoint file: a failing \<open>stat\<close>
  counts as absence.\<close>

definition os_path_exists :: "world \<Rightarrow> path \<Rightarrow> bool" where
  "os_path_exists w p =
     (\<not> stat_fails w (resolve w p) \<and> checkpoint_files w (resolve w p) \<noteq> None)"

definition load_checkpoint :: "path \<Rightarrow> world \<Rightarrow> checkpoint" where
  "load_checkpoint checkpoint_path w =
     (if os_path_exists w checkpoint_path
      then (case checkpoint_files w (resolve w checkpoint_path) of
              Some j \<Rightarrow> (case json_load j of Inr c \<Rightarrow> c | Inl e \<Rightarrow> default_checkpoint w)
            | None \<Rightarrow> default_checkpoint w)
      else default_checkpoint w)"

definition save_checkpoint :: "checkpoint \<Rightarrow> path \<Rightarrow> world \<Rightarrow> world" where
  "save_checkpoint c checkpoint_path w =
     (case next_write w of
        (Written, w') \<Rightarrow>
          w'\<lparr>checkpoint_files := (checkpoint_files w')(resolve w' checkpoint_path \<mapsto> Parsed c)\<rparr>
      | (Refused, w') \<Rightarrow> w'
      | (Truncated, w') \<Rightarrow>
          w'\<lparr>checkpoint_files := (checkpoint_files w')(resolve w' checkpoint_path \<mapsto> Unparsable)\<rparr>)"

subsection \<open>Rebuilding the index\<close>

definition next_fault :: "world \<Rightarrow> exn option \<times> world" where
  "next_fault w =
     (case faults w of
        [] \<Rightarrow> (None, w)
      | x # xs \<Rightarrow> (x, w\<lparr>faults := xs\<rparr>))"

text \<open>\<^verbatim>\<open>except Exception\<close> catches every exception of the model but the operator's
  cancellation; \<^verbatim>\<open>except sqlite3.OperationalError\<close> catches that class only.\<close>

definition is_Exception :: "exn \<Rightarrow> bool" where
  "is_Exception x = (x \<noteq> KeyboardInterrupt)"

definition is_OperationalError :: "exn \<Rightarrow> bool" where
  "is_OperationalError x = (x = OperationalError)"

text \<open>Reading the rows of the \<open>entries\<close> table of a database file.\<close>

definition read_rows :: "path \<Rightarrow> world \<Rightarrow> exn + entry list" where
  "read_rows p w =
     (case stat w p of
        None \<Rightarrow> Inl OperationalError
      | Some f \<Rightarrow>
          (case content f of
             Corrupt \<Rightarrow> Inl DatabaseError
           | Empty_db \<Rightarrow> Inl OperationalError
           | Tables rows \<Rightarrow> Inr rows))"

text \<open>The body of the \<^verbatim>\<open>try\<close> of \<open>rebuild_index\<close> up to \<^verbatim>\<open>fetchall\<close>:
  connect and \<^verbatim>\<open>SELECT page_id FROM entries\<close>. The storage engine may raise here.\<close>

definition scan_shard :: "path \<Rightarrow> world \<Rightarrow> (exn + key list) \<times> world" where
  "scan_shard shard_path w =
     (case next_fault w of
        (Some x, w') \<Rightarrow> (Inl x, w')
      | (None, w') \<Rightarrow>
          (case read_rows shard_path w' of
             Inl x \<Rightarrow> (Inl x, w')
           | Inr rows \<Rightarrow> (Inr (map page_id rows), w')))"

fun add_pages :: "key list \<Rightarrow> path \<Rightarrow> router \<Rightarrow> world \<Rightarrow> router \<times> world" where
  "add_pages [] shard_path r w = (r, w)"
| "add_pages (k # ks) shard_path r w =
     (case add_page k shard_path r w of (r', w') \<Rightarrow> add_pages ks shard_path r' w')"

text \<open>The loop over the shards. An exception of a scan is logged and the shard is left
  out, unless it is the cancellation, which \<^verbatim>\<open>except Exception\<close> does not catch.\<close>

fun scan_all :: "path list \<Rightarrow> router \<Rightarrow> world \<Rightarrow> exn option \<times> router \<times> world" where
  "scan_all [] r w = (None, r, w)"
| "scan_all (shard_path # ps) r w =
     (case scan_shard shard_path w of
        (Inr ks, w') \<Rightarrow>
          (case add_pages ks shard_path r w' of (r', w'') \<Rightarrow> scan_all ps r' w'')
      | (Inl x, w') \<Rightarrow>
          if is_Exception x then scan_all ps r w' else (Some x, r, w'))"

definition rebuild_index :: "router \<Rightarrow> world \<Rightarrow> exn option \<times> router \<times> world" where
  "rebuild_index r w =
     (case scan_all (u_get_all_shard_paths r w) (r\<lparr>page_to_shard := Map.empty\<rparr>) w of
        (Some x, r', w') \<Rightarrow> (Some x, r', w')
      | (None, r', w') \<Rightarrow> (None, r', save (index_path r') (page_to_shard r') w'))"

subsection \<open>The migration runner\<close>

text \<open>The module constants; \<open>main\<close> may replace the two pauses by command-line values.\<close>

definition MAX_RETRIES :: nat where "MAX_RETRIES = 3"
definition RETRY_DELAY :: nat where "RETRY_DELAY = 5"
definition BATCH_PAUSE :: nat where "BATCH_PAUSE = 5"
definition LONG_PAUSE :: nat where "LONG_PAUSE = 30"
definition LONG_PAUSE_FREQUENCY :: int where "LONG_PAUSE_FREQUENCY = 10"

text \<open>\<^verbatim>\<open>time.sleep\<close>: the operator may cancel during it.\<close>

definition sleep :: "nat \<Rightarrow> world \<Rightarrow> exn option \<times> world" where
  "sleep n w =
     (let w' = w\<lparr>slept := slept w @ [n]\<rparr>
      in case interrupts w' of
           [] \<Rightarrow> (None, w')
         | b # bs \<Rightarrow> (if b then Some KeyboardInterrupt else None, w'\<lparr>interrupts := bs\<rparr>))"

definition get_entry_count :: "path \<Rightarrow> world \<Rightarrow> exn + int" where
  "get_entry_count db_path w =
     (case read_rows db_path w of Inl x \<Rightarrow> Inl x | Inr rows \<Rightarrow> Inr (int (length rows)))"

text \<open>\<^verbatim>\<open>ORDER BY e.id LIMIT ? OFFSET ?\<close>: a negative limit is no limit, a negative
  offset is offset zero. The left join with \<open>training_metadata\<close> is taken to give one
  row per entry.\<close>

definition get_entries_batch :: "path \<Rightarrow> int \<Rightarrow> int \<Rightarrow> world \<Rightarrow> exn + entry list" where
  "get_entries_batch db_path offset limit w =
     (case read_rows db_path w of
        Inl x \<Rightarrow> Inl x
      | Inr rows \<Rightarrow>
          (let from_offset = drop (nat offset) (sort_key entry_id rows)
           in Inr (if limit < 0 then from_offset else take (nat limit) from_offset)))"

text \<open>
  \<open>insert_entry_to_shard\<close>. The result is the exception it raises, if any, with the
  router and the disk as the call leaves them. A row is stored if its page id is not in
  the shard the router hands out; the primary key \<open>id\<close> must be new in that shard. A
  transaction that raises is not committed.
\<close>

definition insert_entry_to_shard :: "entry \<Rightarrow> router \<Rightarrow> world \<Rightarrow> exn option \<times> router \<times> world" where
  "insert_entry_to_shard e r w =
     (case get_shard_for_writing r w of
        Inl x \<Rightarrow> (Some x, r, w)
      | Inr (shard_path, r1, w1) \<Rightarrow>
          (case next_fault w1 of
             (Some x, w2) \<Rightarrow> (Some x, r1, w2)
           | (None, w2) \<Rightarrow>
               (case stat w2 shard_path of
                  None \<Rightarrow>
                    (Some OperationalError, r1,
                     write_file w2 shard_path
                       \<lparr>st_size = 0, st_mtime = stamp (now w2), content = Empty_db\<rparr>)
                | Some f \<Rightarrow>
                    (case content f of
                       Corrupt \<Rightarrow> (Some DatabaseError, r1, w2)
                     | Empty_db \<Rightarrow> (Some OperationalError, r1, w2)
                     | Tables rows \<Rightarrow>
                         if page_id e \<in> set (map page_id rows) then (None, r1, w2)
                         else if entry_id e \<in> set (map entry_id rows)
                         then (Some IntegrityError, r1, w2)
                         else (case add_page (page_id e) shard_path r1
                                      (write_file w2 shard_path
                                         (f\<lparr>st_size := st_size f + row_bytes e,
                                            st_mtime := stamp (now w2),
                                            content := Tables (rows @ [e])\<rparr>)) of
                                 (r2, w3) \<Rightarrow> (None, r2, w3))))))"

datatype outcome = Skipped | Inserted | Failed | Raised exn

text \<open>The \<^verbatim>\<open>while not success and retries < MAX_RETRIES\<close> loop of \<open>process_batch\<close>,
  started with \<open>retries = 0\<close>.\<close>

function insert_with_retry :: "nat \<Rightarrow> entry \<Rightarrow> router \<Rightarrow> world \<Rightarrow> outcome \<times> router \<times> world" where
  "insert_with_retry retries e r w =
     (if retries < MAX_RETRIES
      then (case insert_entry_to_shard e r w of
              (None, r', w') \<Rightarrow> (Inserted, r', w')
            | (Some x, r', w') \<Rightarrow>
                if is_OperationalError x
                then (case sleep (RETRY_DELAY * (retries + 1)) w' of
                        (Some y, w'') \<Rightarrow> (Raised y, r', w'')
                      | (None, w'') \<Rightarrow> insert_with_retry (retries + 1) e r' w'')
                else if is_Exception x then (Failed, r', w')
                else (Raised x, r', w'))
      else (Failed, r, w))"
  by pat_completeness auto
termination
  by (relation "measure (\<lambda>(retries, e, r, w). MAX_RETRIES - retries)") auto

declare insert_with_retry.simps [simp del]

text \<open>The state the runner threads through a run: the in-memory checkpoint dictionary,
  the shard manager and the world.\<close>

record mstate =
  ck :: checkpoint
  shard_manager :: router
  env :: world

text \<open>The body of the \<^verbatim>\<open>for entry in entries\<close> loop.\<close>

definition process_entry :: "entry \<Rightarrow> mstate \<Rightarrow> outcome \<times> mstate" where
  "process_entry e s =
     (if page_id e \<in> set (processed_page_ids (ck s)) then (Skipped, s)
      else (case insert_with_retry 0 e (shard_manager s) (env s) of
              (Inserted, r', w') \<Rightarrow>
                (Inserted,
                 s\<lparr>ck := (ck s)\<lparr>processed_page_ids := processed_page_ids (ck s) @ [page_id e]\<rparr>,
                   shard_manager := r', env := w'\<rparr>)
            | (out, r', w') \<Rightarrow> (out, s\<lparr>shard_manager := r', env := w'\<rparr>)))"

text \<open>\<open>process_batch\<close>, with the running \<open>processed_count\<close> as an argument (the source
  starts it at 0). An exception that leaves the loop is returned with the state reached.\<close>

fun process_batch :: "entry list \<Rightarrow> nat \<Rightarrow> mstate \<Rightarrow> (exn + nat) \<times> mstate" where
  "process_batch [] processed_count s = (Inr processed_count, s)"
| "process_batch (e # es) processed_count s =
     (case process_entry e s of
        (Skipped, s') \<Rightarrow> process_batch es (processed_count + 1) s'
      | (Inserted, s') \<Rightarrow> process_batch es (processed_count + 1) s'
      | (Failed, s') \<Rightarrow> process_batch es processed_count s'
      | (Raised x, s') \<Rightarrow> (Inl x, s'))"

text \<open>What happened to each record of a batch, in order, up to the first exception that
  leaves the loop.\<close>

fun outcomes :: "entry list \<Rightarrow> mstate \<Rightarrow> outcome list" where
  "outcomes [] s = []"
| "outcomes (e # es) s =
     (case process_entry e s of
        (Raised x, s') \<Rightarrow> [Raised x]
      | (out, s') \<Rightarrow> out # outcomes es s')"

record margs =
  source_path :: path
  target_dir :: path
  batch_size :: int
  shard_size_limit_mb :: int
  force_restart :: bool

definition checkpoint_path :: "margs \<Rightarrow> path" where
  "checkpoint_path a = join (target_dir a) ''migration_checkpoint.json''"

text \<open>Lines 354 to 369 of \<open>migrate_database\<close>: the checkpoint, the offset and the batch
  number the run starts with.\<close>

definition start_of_run :: "margs \<Rightarrow> world \<Rightarrow> checkpoint \<times> int \<times> int" where
  "start_of_run a w =
     (if os_path_exists w (checkpoint_path a) \<and> \<not> force_restart a
      then (let checkpoint = load_checkpoint (checkpoint_path a) w
            in (checkpoint, entries_processed checkpoint, last_batch checkpoint + 1))
      else (default_checkpoint w, 0, 1))"

text \<open>One pass of the \<^verbatim>\<open>while offset < total_entries\<close> loop up to the update of the
  in-memory checkpoint (before \<open>save_checkpoint\<close>).\<close>

definition run_batch :: "margs \<Rightarrow> int \<Rightarrow> int \<Rightarrow> mstate \<Rightarrow> exn option \<times> mstate" where
  "run_batch a offset batch_num s =
     (case get_entries_batch (source_path a) offset (batch_size a) (env s) of
        Inl x \<Rightarrow> (Some x, s)
      | Inr entries \<Rightarrow>
          (case process_batch entries 0 s of
             (Inl x, s1) \<Rightarrow> (Some x, s1)
           | (Inr processed_count, s1) \<Rightarrow>
               (let c = (ck s1)\<lparr>last_batch := batch_num,
                                 entries_processed := offset + int processed_count,
                                 last_timestamp := now (env s1)\<rparr>
                in case get_shard_for_writing (shard_manager s1) (env s1) of
                     Inl x \<Rightarrow> (Some x, s1\<lparr>ck := c\<rparr>)
                   | Inr (p, r', w') \<Rightarrow>
                       (None, \<lparr>ck = c\<lparr>current_shard := p\<rparr>, shard_manager = r', env = w'\<rparr>))))"

text \<open>The pause at the end of a pass; \<open>batch_num\<close> is already incremented.\<close>

definition pause_after :: "int \<Rightarrow> world \<Rightarrow> exn option \<times> world" where
  "pause_after batch_num w =
     (if batch_num mod LONG_PAUSE_FREQUENCY = 0 then sleep LONG_PAUSE w else sleep BATCH_PAUSE w)"

text \<open>
  The loop. It need not end (a batch size of zero or below never reaches the total), so it
  runs on fuel and \<open>None\<close> means that the fuel did not suffice. Beside the exception that
  ended the loop, if any, and the final state, the result lists the checkpoints handed to
  \<open>save_checkpoint\<close>, one per completed batch, each with what the write did. The
  progress report divides by \<open>total_entries\<close>, which raises when the total is zero.
\<close>

fun migrate_loop ::
  "nat \<Rightarrow> margs \<Rightarrow> int \<Rightarrow> int \<Rightarrow> int \<Rightarrow> mstate
     \<Rightarrow> (exn option \<times> (checkpoint \<times> write_outcome) list \<times> mstate) option" where
  "migrate_loop 0 a total_entries offset batch_num s = None"
| "migrate_loop (Suc fuel) a total_entries offset batch_num s =
     (if offset < total_entries
      then (case run_batch a offset batch_num s of
              (Some x, s1) \<Rightarrow> Some (Some x, [], s1)
            | (None, s1) \<Rightarrow>
                (let saved = (ck s1, fst (next_write (env s1)));
                     w2 = save_checkpoint (ck s1) (checkpoint_path a) (env s1)
                 in if total_entries = 0
                    then Some (Some ZeroDivisionError, [saved], s1\<lparr>env := w2\<rparr>)
                    else (case pause_after (batch_num + 1) w2 of
                            (Some x, w3) \<Rightarrow> Some (Some x, [saved], s1\<lparr>env := w3\<rparr>)
                          | (None, w3) \<Rightarrow>
                              map_option (\<lambda>(res, hist, s'). (res, saved # hist, s'))
                                (migrate_loop fuel a total_entries (offset + batch_size a)
                                   (batch_num + 1) (s1\<lparr>env := w3\<rparr>)))))
      else Some (None, [], s))"

datatype run_result = Completed | Interrupted | Crashed exn

text \<open>\<^verbatim>\<open>os.remove(checkpoint_path)\<close>; a failure is only a warning.\<close>

definition remove_checkpoint :: "path \<Rightarrow> world \<Rightarrow> world" where
  "remove_checkpoint p w =
     (case next_write w of
        (Written, w') \<Rightarrow> w'\<lparr>checkpoint_files := (checkpoint_files w')(resolve w' p := None)\<rparr>
      | (_, w') \<Rightarrow> w')"

text \<open>
  \<open>migrate_database\<close>. The module global of \<open>get_shard_manager\<close> is passed in and
  returned with the router as the run leaves it.
\<close>

definition migrate_database ::
  "nat \<Rightarrow> margs \<Rightarrow> router option \<Rightarrow> world
     \<Rightarrow> (run_result \<times> (checkpoint \<times> write_outcome) list \<times> router option \<times> world) option" where
  "migrate_database fuel a inst w =
     (case get_shard_manager (target_dir a) (shard_size_limit_mb a) inst w of
        Inl x \<Rightarrow> Some (Crashed x, [], inst, w)
      | Inr (r, inst1, w1) \<Rightarrow>
          (case get_entry_count (source_path a) w1 of
             Inl x \<Rightarrow> Some (Crashed x, [], inst1, w1)
           | Inr total_entries \<Rightarrow>
               (case start_of_run a w1 of
                  (checkpoint, offset, batch_num) \<Rightarrow>
                    (case migrate_loop fuel a total_entries offset batch_num
                            \<lparr>ck = checkpoint, shard_manager = r, env = w1\<rparr> of
                       None \<Rightarrow> None
                     | Some (Some x, hist, s) \<Rightarrow>
                         Some (if x = KeyboardInterrupt then Interrupted else Crashed x,
                               hist, Some (shard_manager s), env s)
                     | Some (None, hist, s) \<Rightarrow>
                         (case rebuild_index (shard_manager s) (env s) of
                            (Some x, r', w') \<Rightarrow> Some (Crashed x, hist, Some r', w')
                          | (None, r', w') \<Rightarrow>
                              Some (Completed, hist, Some r',
                                    remove_checkpoint (checkpoint_path a) w'))))))"

subsection \<open>Notions used to state the properties\<close>


text \<open>The shards of a listing whose scan succeeds, each with the page ids the scan finds:
  the n-th scan meets the n-th entry of the fault oracle, and the file must be a database
  with the \<open>entries\<close> table.\<close>

fun found :: "path list \<Rightarrow> exn option list \<Rightarrow> world \<Rightarrow> (path \<times> key list) list" where
  "found [] fs w = []"
| "found (p # ps) fs w =
     (if fs \<noteq> [] \<and> hd fs \<noteq> None then found ps (tl fs) w
      else (case read_rows p w of
              Inr rows \<Rightarrow> (p, map page_id rows) # found ps (tl fs) w
            | Inl x \<Rightarrow> found ps (tl fs) w))"

text \<open>The last shard of such a list that holds a key.\<close>

fun owner :: "key \<Rightarrow> (path \<times> key list) list \<Rightarrow> path option" where
  "owner k [] = None"
| "owner k ((p, ks) # rest) =
     (case owner k rest of
        Some q \<Rightarrow> Some q
      | None \<Rightarrow> if k \<in> set ks then Some p else None)"

text \<open>
  Failed attempts at one record. \<open>failed_attempts n retries e r w = Some (r', w')\<close> says:
  with the counter at \<open>retries\<close>, \<open>n\<close> calls of \<open>insert_entry_to_shard\<close> in a row raise
  \<open>OperationalError\<close>, each followed by a sleep of \<open>RETRY_DELAY\<close> times the counter as
  incremented that the operator does not cancel, and they leave the router \<open>r'\<close> and the
  world \<open>w'\<close>.
\<close>

fun failed_attempts :: "nat \<Rightarrow> nat \<Rightarrow> entry \<Rightarrow> router \<Rightarrow> world \<Rightarrow> (router \<times> world) option" where
  "failed_attempts 0 retries e r w = Some (r, w)"
| "failed_attempts (Suc n) retries e r w =
     (case insert_entry_to_shard e r w of
        (Some x, r1, w1) \<Rightarrow>
          if x = OperationalError
          then (case sleep (RETRY_DELAY * (retries + 1)) w1 of
                  (None, w2) \<Rightarrow> failed_attempts n (retries + 1) e r1 w2
                | (Some y, w2) \<Rightarrow> None)
          else None
      | (None, r1, w1) \<Rightarrow> None)"

text \<open>The outcomes that \<open>process_batch\<close> counts.\<close>

definition counted :: "outcome \<Rightarrow> bool" where
  "counted out = (out = Skipped \<or> out = Inserted)"

text \<open>Summaries of a run, to state what it did: for each checkpoint handed to
  \<open>save_checkpoint\<close> its \<open>last_batch\<close>, \<open>entries_processed\<close>, \<open>processed_page_ids\<close> and
  what the write did; the checkpoint file a run leaves; the page ids in a shard.\<close>

type_synonym saves = "(checkpoint \<times> write_outcome) list"

definition saved_progress :: "saves \<Rightarrow> (int \<times> int \<times> key list \<times> write_outcome) list" where
  "saved_progress hist =
     map (\<lambda>(c, wo). (last_batch c, entries_processed c, processed_page_ids c, wo)) hist"

definition loop_summary ::
  "(exn option \<times> saves \<times> mstate) option
     \<Rightarrow> (exn option \<times> (int \<times> int \<times> key list \<times> write_outcome) list) option" where
  "loop_summary res = map_option (\<lambda>(x, hist, s). (x, saved_progress hist)) res"

definition run_summary ::
  "path \<Rightarrow> (run_result \<times> saves \<times> router option \<times> world) option
     \<Rightarrow> (run_result \<times> (int \<times> int \<times> key list \<times> write_outcome) list
          \<times> checkpoint json_file option) option" where
  "run_summary cp res =
     map_option (\<lambda>(x, hist, inst, w). (x, saved_progress hist, checkpoint_files w cp)) res"

definition final_world ::
  "(run_result \<times> saves \<times> router option \<times> world) option \<Rightarrow> world option" where
  "final_world res = map_option (\<lambda>(x, hist, inst, w). w) res"

definition keys_of_shard :: "path \<Rightarrow> world option \<Rightarrow> key list option" where
  "keys_of_shard p wo =
     (case wo of
        None \<Rightarrow> None
      | Some w \<Rightarrow> (case read_rows p w of Inl x \<Rightarrow> None | Inr rows \<Rightarrow> Some (map page_id rows)))"

section \<open>Concrete scenarios\<close>

text \<open>A data directory \<open>/srv/data\<close> in November 2026 that holds one shard of 2 MiB, an
  index file that does not parse and no checkpoint file; and a router with a limit of
  1 MiB whose current write shard is that shard.\<close>

definition ex_clock :: clock where
  "ex_clock = \<lparr>year = 2026, month = 11, stamp = 7\<rparr>"

definition ex_full_shard :: shard_file where
  "ex_full_shard = \<lparr>st_size = 2097152, st_mtime = 3,
      content = Tables [\<lparr>entry_id = 1, page_id = ''p1'', row_bytes = 2052096\<rparr>]\<rparr>"

definition ex_world :: world where
  "ex_world = \<lparr>cwd = ''/srv'', now = ex_clock, schema_bytes = 45056,
     files = [(''/srv/data/changelog_2026_11.db'', ex_full_shard)],
     index_files = [''/srv/data/shard_index.json'' \<mapsto> Unparsable],
     checkpoint_files = Map.empty,
     faults = [], write_outcomes = [], interrupts = [], slept = [],
     stat_fails = (\<lambda>p. False)\<rparr>"

definition ex_router :: router where
  "ex_router = \<lparr>base_path = ''data'', shard_size_limit_bytes = 1048576,
     page_to_shard = [''p1'' \<mapsto> ''/srv/data/changelog_2026_11.db'',
                      ''p3'' \<mapsto> ''/srv/data/changelog_2026_09.db'',
                      ''p4'' \<mapsto> Nil],
     current_shard_path = ''data/changelog_2026_11.db''\<rparr>"

text \<open>The same directory on a system that refuses paths of 4096 bytes and more, and a base
  path of that length.\<close>

definition name_too_long :: "path \<Rightarrow> bool" where
  "name_too_long p = (4095 < length p)"

definition long_name_world :: world where
  "long_name_world = ex_world\<lparr>stat_fails := name_too_long\<rparr>"

definition long_base :: path where
  "long_base = replicate 4096 CHR ''a''"

text \<open>The same directory later in the same month.\<close>

definition ex_world_later :: world where
  "ex_world_later = ex_world\<lparr>now := \<lparr>year = 2026, month = 11, stamp = 99\<rparr>\<rparr>"

text \<open>The router that \<open>ShardedChangelogDB ''data'' 1\<close> builds in \<open>ex_world\<close>.\<close>

definition ex_built_router :: router where
  "ex_built_router = \<lparr>base_path = ''data'', shard_size_limit_bytes = 1048576,
     page_to_shard = Map.empty, current_shard_path = ''data/changelog_2026_11.db''\<rparr>"

text \<open>A migration: a legacy database with three records and a target directory that
  holds one empty shard, under a limit of 90 MiB.\<close>

definition e1 :: entry where "e1 = \<lparr>entry_id = 1, page_id = ''p1'', row_bytes = 1000\<rparr>"

definition e2 :: entry where "e2 = \<lparr>entry_id = 2, page_id = ''p2'', row_bytes = 1000\<rparr>"

definition e3 :: entry where "e3 = \<lparr>entry_id = 3, page_id = ''p3'', row_bytes = 1000\<rparr>"

definition legacy_db :: shard_file where
  "legacy_db = \<lparr>st_size = 60000, st_mtime = 1, content = Tables [e1, e2, e3]\<rparr>"

definition empty_shard :: shard_file where
  "empty_shard = \<lparr>st_size = 45056, st_mtime = 5, content = Tables []\<rparr>"

definition mig_world :: world where
  "mig_world = \<lparr>cwd = ''/srv'', now = ex_clock, schema_bytes = 45056,
     files = [(''/srv/legacy/changelog.db'', legacy_db),
              (''/srv/data/changelog_2026_11.db'', empty_shard)],
     index_files = Map.empty, checkpoint_files = Map.empty,
     faults = [], write_outcomes = [], interrupts = [], slept = [],
     stat_fails = (\<lambda>p. False)\<rparr>"

definition mig_router :: router where
  "mig_router = \<lparr>base_path = ''data'', shard_size_limit_bytes = 94371840,
     page_to_shard = Map.empty, current_shard_path = ''data/changelog_2026_11.db''\<rparr>"

definition mig_args :: margs where
  "mig_args = \<lparr>source_path = ''legacy/changelog.db'', target_dir = ''data'', batch_size = 2,
      shard_size_limit_mb = 90, force_restart = False\<rparr>"

text \<open>The storage engine reports a lock on three attempts in a row; afterwards the
  runner has slept three times and given the record up.\<close>

definition locked_state :: mstate where
  "locked_state = \<lparr>ck = default_checkpoint mig_world, shard_manager = mig_router,
      env = mig_world\<lparr>faults := [Some OperationalError, Some OperationalError, Some OperationalError]\<rparr>\<rparr>"

definition gave_up_state :: mstate where
  "gave_up_state = \<lparr>ck = default_checkpoint mig_world, shard_manager = mig_router,
      env = mig_world\<lparr>slept := [5, 10, 15]\<rparr>\<rparr>"

text \<open>The storage engine reports a lock once; the state after the sleep that follows; the
  state after the second attempt when it succeeds; and a run in which the second attempt
  violates a constraint.\<close>

definition retry_once_state :: mstate where
  "retry_once_state = \<lparr>ck = default_checkpoint mig_world, shard_manager = mig_router,
      env = mig_world\<lparr>faults := [Some OperationalError]\<rparr>\<rparr>"

definition retried_state :: mstate where
  "retried_state = \<lparr>ck = default_checkpoint mig_world, shard_manager = mig_router,
      env = mig_world\<lparr>slept := [5]\<rparr>\<rparr>"

definition inserted_on_retry_state :: mstate where
  "inserted_on_retry_state =
     \<lparr>ck = (default_checkpoint mig_world)\<lparr>processed_page_ids := [''p1'']\<rparr>,
      shard_manager = mig_router\<lparr>page_to_shard := [''p1'' \<mapsto> ''/srv/data/changelog_2026_11.db'']\<rparr>,
      env = mig_world
        \<lparr>files := [(''/srv/legacy/changelog.db'', legacy_db),
                    (''/srv/data/changelog_2026_11.db'',
                     \<lparr>st_size = 46056, st_mtime = 7, content = Tables [e1]\<rparr>)],
          index_files := [''/srv/data/shard_index.json'' \<mapsto>
                           Parsed [''p1'' \<mapsto> ''/srv/data/changelog_2026_11.db'']],
          slept := [5]\<rparr>\<rparr>"

definition retry_then_reject_state :: mstate where
  "retry_then_reject_state = \<lparr>ck = default_checkpoint mig_world, shard_manager = mig_router,
      env = mig_world\<lparr>faults := [Some OperationalError, Some IntegrityError]\<rparr>\<rparr>"

text \<open>A data directory in which the October shard holds the records \<open>p1\<close> and \<open>p2\<close>
  and the November shard holds \<open>p2\<close> again; and the same directory when the storage
  engine reports a lock on the first scan.\<close>

definition two_shard_world :: world where
  "two_shard_world = \<lparr>cwd = ''/srv'', now = ex_clock, schema_bytes = 45056,
     files = [(''/srv/data/changelog_2026_11.db'',
                 \<lparr>st_size = 46056, st_mtime = 6, content = Tables [e2]\<rparr>),
              (''/srv/data/changelog_2026_10.db'',
                 \<lparr>st_size = 47056, st_mtime = 4, content = Tables [e1, e2]\<rparr>)],
     index_files = Map.empty, checkpoint_files = Map.empty,
     faults = [], write_outcomes = [], interrupts = [], slept = [],
     stat_fails = (\<lambda>p. False)\<rparr>"

definition locked_two_shard_world :: world where
  "locked_two_shard_world = two_shard_world\<lparr>faults := [Some OperationalError]\<rparr>"

text \<open>The first insertion attempt of a run fails for good (a constraint violation); and
  the state after the first batch of that run.\<close>

definition failing_first_state :: mstate where
  "failing_first_state = \<lparr>ck = default_checkpoint mig_world, shard_manager = mig_router,
      env = mig_world\<lparr>faults := [Some IntegrityError]\<rparr>\<rparr>"

definition after_first_batch :: mstate where
  "after_first_batch =
     \<lparr>ck = \<lparr>last_batch = 1, entries_processed = 1, last_timestamp = ex_clock,
              processed_page_ids = [''p2''], current_shard = ''data/changelog_2026_11.db''\<rparr>,
      shard_manager = mig_router\<lparr>page_to_shard := [''p2'' \<mapsto> ''/srv/data/changelog_2026_11.db'']\<rparr>,
      env = mig_world
        \<lparr>files := [(''/srv/legacy/changelog.db'', legacy_db),
                    (''/srv/data/changelog_2026_11.db'',
                     \<lparr>st_size = 46056, st_mtime = 7, content = Tables [e2]\<rparr>)],
          index_files := [''/srv/data/shard_index.json'' \<mapsto>
                           Parsed [''p2'' \<mapsto> ''/srv/data/changelog_2026_11.db'']]\<rparr>\<rparr>"

text \<open>The operator cancels during the first pause, with every write succeeding and with
  the checkpoint write refused; the checkpoint, the router and the disk that the first of
  these runs leaves.\<close>

definition first_checkpoint :: checkpoint where
  "first_checkpoint = \<lparr>last_batch = 1, entries_processed = 2, last_timestamp = ex_clock,
      processed_page_ids = [''p1'', ''p2''], current_shard = ''data/changelog_2026_11.db''\<rparr>"

definition interrupted_world :: world where
  "interrupted_world = mig_world\<lparr>interrupts := [True]\<rparr>"

definition refused_save_world :: world where
  "refused_save_world = mig_world\<lparr>write_outcomes := [Written, Written, Refused], interrupts := [True]\<rparr>"

definition interrupted_router :: router where
  "interrupted_router = mig_router
     \<lparr>page_to_shard := [''p1'' \<mapsto> ''/srv/data/changelog_2026_11.db'',
                        ''p2'' \<mapsto> ''/srv/data/changelog_2026_11.db'']\<rparr>"

definition after_interrupt_world :: world where
  "after_interrupt_world = mig_world
     \<lparr>files := [(''/srv/legacy/changelog.db'', legacy_db),
                 (''/srv/data/changelog_2026_11.db'',
                  \<lparr>st_size = 47056, st_mtime = 7, content = Tables [e1, e2]\<rparr>)],
       index_files := [''/srv/data/shard_index.json'' \<mapsto> Parsed (page_to_shard interrupted_router)],
       checkpoint_files := [''/srv/data/migration_checkpoint.json'' \<mapsto> Parsed first_checkpoint],
       slept := [5]\<rparr>"

definition resumed_state :: mstate where
  "resumed_state = \<lparr>ck = first_checkpoint, shard_manager = interrupted_router,
      env = after_interrupt_world\<rparr>"

text \<open>A migration of one record of 2 MiB into an empty directory under a limit of 1 MiB,
  run in October 2026 and again in November; the disk after each run.\<close>

definition big1 :: entry where
  "big1 = \<lparr>entry_id = 1, page_id = ''p1'', row_bytes = 2097152\<rparr>"

definition oct_world :: world where
  "oct_world = \<lparr>cwd = ''/srv'', now = \<lparr>year = 2026, month = 10, stamp = 1\<rparr>,
     schema_bytes = 45056,
     files = [(''/srv/legacy/changelog.db'',
                \<lparr>st_size = 3000000, st_mtime = 0, content = Tables [big1]\<rparr>)],
     index_files = Map.empty, checkpoint_files = Map.empty,
     faults = [], write_outcomes = [], interrupts = [], slept = [],
     stat_fails = (\<lambda>p. False)\<rparr>"

definition big_args :: margs where
  "big_args = \<lparr>source_path = ''legacy/changelog.db'', target_dir = ''data'', batch_size = 50,
      shard_size_limit_mb = 1, force_restart = False\<rparr>"

definition after_first_run :: world where
  "after_first_run = oct_world
     \<lparr>files := [(''/srv/legacy/changelog.db'',
                   \<lparr>st_size = 3000000, st_mtime = 0, content = Tables [big1]\<rparr>),
                 (''/srv/data/changelog_2026_10.db'',
                   \<lparr>st_size = 2142208, st_mtime = 1, content = Tables [big1]\<rparr>)],
       index_files := [''/srv/data/shard_index.json'' \<mapsto>
                         Parsed [''p1'' \<mapsto> ''/srv/data/changelog_2026_10.db'']],
       slept := [5]\<rparr>"

definition second_run_world :: world where
  "second_run_world = after_first_run\<lparr>now := \<lparr>year = 2026, month = 11, stamp = 2\<rparr>\<rparr>"

definition after_second_run :: world where
  "after_second_run = second_run_world
     \<lparr>files := [(''/srv/legacy/changelog.db'',
                   \<lparr>st_size = 3000000, st_mtime = 0, content = Tables [big1]\<rparr>),
                 (''/srv/data/changelog_2026_10.db'',
                   \<lparr>st_size = 2142208, st_mtime = 1, content = Tables [big1]\<rparr>),
                 (''/srv/data/changelog_2026_11.db'',
                   \<lparr>st_size = 2142208, st_mtime = 2, content = Tables [big1]\<rparr>)],
       index_files := [''/srv/data/shard_index.json'' \<mapsto>
                         Parsed [''p1'' \<mapsto> ''/srv/data/changelog_2026_11.db'']],
       slept := [5, 5]\<rparr>"

section \<open>Properties\<close>

subsection \<open>Evaluation of the scenarios\<close>

lemma ex_new_shard_name: "new_shard_name ex_clock = ''changelog_2026_11.db''"
  by (simp add: new_shard_name_def ex_clock_def pad2_def show_nat.simps digit_char_def)

lemma ex_stat: "stat ex_world ''data/changelog_2026_11.db'' = Some ex_full_shard"
  by (simp add: stat_def resolve_def ex_world_def)


lemma ex_create:
  "u_create_new_shard ex_router ex_world = Inr (''data/changelog_2026_11.db'', ex_world)"
proof -
  have "join (base_path ex_router) (new_shard_name (now ex_world)) = ''data/changelog_2026_11.db''"
    using ex_new_shard_name by (simp add: join_def ex_router_def ex_world_def)
  then show ?thesis
    using ex_stat by (simp add: u_create_new_shard_def init_db_def ex_full_shard_def)
qed

subsection \<open>Loading metadata\<close>

text \<open>Where \<open>stat\<close> succeeds, an index file that is absent or does not parse loads as the
  empty mapping; a checkpoint file that is absent, cannot be examined or does not parse
  loads as the default checkpoint.\<close>

lemma u_load_index_fallback:
  "\<not> stat_fails w (resolve w ip) \<Longrightarrow>
     index_files w (resolve w ip) = None \<or> index_files w (resolve w ip) = Some Unparsable \<Longrightarrow>
     u_load_index ip w = Inr Map.empty"
  by (auto simp: u_load_index_def json_load_def)

lemma load_checkpoint_fallback:
  "stat_fails w (resolve w cp) \<or> checkpoint_files w (resolve w cp) = None
     \<or> checkpoint_files w (resolve w cp) = Some Unparsable \<Longrightarrow>
     load_checkpoint cp w = default_checkpoint w"
  by (auto simp: load_checkpoint_def os_path_exists_def json_load_def)

lemma long_index_path:
  "resolve long_name_world (join long_base ''shard_index.json'')
     = ''/srv/'' @ replicate 4096 CHR ''a'' @ ''/shard_index.json''"
  by (simp add: resolve_def join_def long_base_def long_name_world_def ex_world_def)

text \<open>
  C8. The base path is a name of 4096 bytes, which the system refuses as too long; there
  is no index file and no checkpoint file. The existence test of \<open>_load_index\<close> stands
  outside its \<^verbatim>\<open>try\<close> and raises \<open>OSError\<close>, which leaves the constructor of the
  router and \<open>get_shard_manager\<close>: the index does not load as the empty mapping.
  \<open>load_checkpoint\<close>, which tests with \<^verbatim>\<open>os.path.exists\<close>, returns the default
  checkpoint in the same directory.
\<close>

theorem index_load_raises_on_long_path:
  "index_files long_name_world (resolve long_name_world (join long_base ''shard_index.json'')) = None
   \<and> u_load_index (join long_base ''shard_index.json'') long_name_world = Inl OSError
   \<and> ShardedChangelogDB long_base 90 long_name_world = Inl OSError
   \<and> get_shard_manager long_base 90 None long_name_world = Inl OSError
   \<and> load_checkpoint (join long_base ''migration_checkpoint.json'') long_name_world
       = default_checkpoint long_name_world"
proof -
  have absent: "index_files long_name_world
      (resolve long_name_world (join long_base ''shard_index.json'')) = None"
  proof -
    have "length (replicate 4096 CHR ''a'') \<noteq> length ''data''"
      by simp
    then have "replicate 4096 CHR ''a'' \<noteq> ''data''"
      by metis
    then show ?thesis
      unfolding long_index_path by (simp add: long_name_world_def ex_world_def)
  qed
  have fails: "stat_fails long_name_world
      (resolve long_name_world (join long_base ''shard_index.json''))"
    unfolding long_index_path by (simp add: long_name_world_def name_too_long_def)
  have ld: "u_load_index (join long_base ''shard_index.json'') long_name_world = Inl OSError"
    using fails by (simp add: u_load_index_def)
  have cp: "load_checkpoint (join long_base ''migration_checkpoint.json'') long_name_world
       = default_checkpoint long_name_world"
    by (rule load_checkpoint_fallback)
      (simp add: long_name_world_def ex_world_def)
  show ?thesis
    using absent ld cp by (simp add: ShardedChangelogDB_def get_shard_manager_def)
qed

subsection \<open>Read targets\<close>



subsection \<open>Naming a new shard\<close>

text \<open>
  C9. The path returned by \<open>u_create_new_shard\<close> is
  \<open>base_path/changelog_<year>_<month>.db\<close>, so two creations under the same base path
  in the same calendar month return the same path; and when a database with the schema
  already exists at that path the creation succeeds and leaves the whole disk, and with it
  the rows of that file, unchanged.
\<close>

theorem new_shard_path_by_month:
  "(u_create_new_shard r w = Inr (p, w') \<longrightarrow>
      p = join (base_path r)
            (''changelog_'' @ show_nat (year (now w)) @ ''_'' @ pad2 (month (now w)) @ ''.db''))
   \<and> (u_create_new_shard r w = Inr (p, w') \<and> u_create_new_shard r2 w2 = Inr (p2, w2')
        \<and> base_path r2 = base_path r \<and> year (now w2) = year (now w) \<and> month (now w2) = month (now w)
      \<longrightarrow> p2 = p)
   \<and> (stat w (join (base_path r) (new_shard_name (now w))) = Some f \<and> content f = Tables rows
      \<longrightarrow> u_create_new_shard r w = Inr (join (base_path r) (new_shard_name (now w)), w))"
  by (auto simp: u_create_new_shard_def Let_def new_shard_name_def init_db_def
      split: sum.splits option.splits db_content.splits)

theorem new_shard_path_by_month_witness:
  "u_create_new_shard ex_router ex_world = Inr (''data/changelog_2026_11.db'', ex_world)
   \<and> u_create_new_shard ex_router ex_world_later = Inr (''data/changelog_2026_11.db'', ex_world_later)
   \<and> stat ex_world_later ''data/changelog_2026_11.db'' = Some ex_full_shard"
proof -
  have n: "join (base_path ex_router) (new_shard_name (now ex_world_later)) = ''data/changelog_2026_11.db''"
    by (simp add: join_def ex_router_def ex_world_later_def new_shard_name_def pad2_def
        show_nat.simps digit_char_def)
  have st: "stat ex_world_later ''data/changelog_2026_11.db'' = Some ex_full_shard"
    by (simp add: stat_def resolve_def ex_world_later_def ex_world_def)
  have c: "content ex_full_shard = Tables [\<lparr>entry_id = 1, page_id = ''p1'', row_bytes = 2052096\<rparr>]"
    by (simp add: ex_full_shard_def)
  have later: "u_create_new_shard ex_router ex_world_later = Inr (''data/changelog_2026_11.db'', ex_world_later)"
    using new_shard_path_by_month [of ex_router ex_world_later p w' r2 w2 p2 w2' ex_full_shard] n st c
    by simp
  have same: "year (now ex_world_later) = year (now ex_world)"
    "month (now ex_world_later) = month (now ex_world)"
    by (simp_all add: ex_world_later_def ex_world_def ex_clock_def)
  show ?thesis
    using new_shard_path_by_month
        [of ex_router ex_world "''data/changelog_2026_11.db''" ex_world ex_router ex_world_later
            "''data/changelog_2026_11.db''" ex_world_later]
      ex_create later same st
    by simp
qed

subsection \<open>The singleton\<close>

text \<open>
  C10. \<open>get_shard_manager\<close> is a process-wide singleton: once a call has returned a router,
  the global holds that router, and a later call returns it and constructs nothing,
  whatever base path and size limit the later call passes.
\<close>

theorem singleton_ignores_arguments:
  "get_shard_manager base1 mb1 inst w = Inr (r1, inst1, w1) \<Longrightarrow>
     inst1 = Some r1 \<and> get_shard_manager base2 mb2 inst1 w2 = Inr (r1, inst1, w2)"
  by (auto simp: get_shard_manager_def split: option.splits sum.splits)

theorem singleton_ignores_arguments_witness:
  "get_shard_manager ''data'' 1 None ex_world = Inr (ex_built_router, Some ex_built_router, ex_world)
   \<and> get_shard_manager ''elsewhere'' 5 (Some ex_built_router) ex_world_later
       = Inr (ex_built_router, Some ex_built_router, ex_world_later)
   \<and> base_path ex_built_router = ''data''
   \<and> shard_size_limit_bytes ex_built_router = 1 * 1024 * 1024"
proof -
  have ld: "u_load_index (join ''data'' ''shard_index.json'') ex_world = Inr Map.empty"
    by (simp add: u_load_index_def join_def resolve_def ex_world_def json_load_def)
  let ?r0 = "\<lparr>base_path = ''data'', shard_size_limit_bytes = 1048576,
               page_to_shard = Map.empty, current_shard_path = []\<rparr>"
  have ls: "u_get_all_shard_paths ?r0 ex_world = [''data/changelog_2026_11.db'']"
    by (simp add: u_get_all_shard_paths_def ex_world_def
        resolve_def name_in_def is_shard_name_def startswith_def endswith_def join_def)
  have big: "u_check_shard_size ?r0 ''data/changelog_2026_11.db'' ex_world"
    using ex_stat by (simp add: u_check_shard_size_def ex_full_shard_def)
  have nm: "join (base_path ?r0) (new_shard_name (now ex_world)) = ''data/changelog_2026_11.db''"
    using ex_new_shard_name by (simp add: join_def ex_world_def)
  have cr: "u_create_new_shard ?r0 ex_world = Inr (''data/changelog_2026_11.db'', ex_world)"
    unfolding u_create_new_shard_def nm using ex_stat by (simp add: init_db_def ex_full_shard_def)
  have first: "get_shard_manager ''data'' 1 None ex_world
      = Inr (ex_built_router, Some ex_built_router, ex_world)"
    by (simp add: get_shard_manager_def ShardedChangelogDB_def ld Let_def
        u_get_or_create_current_shard_def ls big cr ex_built_router_def)
  show ?thesis
    using singleton_ignores_arguments [OF first, of "''elsewhere''" 5 ex_world_later] first
    by (simp add: ex_built_router_def)
qed

subsection \<open>Rotation\<close>

text \<open>Within a calendar month rotation changes nothing: when the size check fires and the
  current write shard already carries the name the clock gives, \<open>get_shard_for_writing\<close>
  returns that shard and leaves the router and the disk as they were.\<close>

lemma rotation_noop_within_month:
  assumes "u_check_shard_size r (current_shard_path r) w"
    and "current_shard_path r = join (base_path r) (new_shard_name (now w))"
    and "stat w (current_shard_path r) = Some f" and "content f = Tables rows"
  shows "get_shard_for_writing r w = Inr (current_shard_path r, r, w)"
  using assms by (simp add: get_shard_for_writing_def u_create_new_shard_def init_db_def)

text \<open>
  C1. In the scenario the current write shard \<open>data/changelog_2026_11.db\<close> measures 2 MiB
  against a limit of 1 MiB, and the clock still shows November 2026. The size check of
  \<open>get_shard_for_writing\<close> fires, but the name of the new shard is the name of the
  current one: no file is created, the router stays bound to the over-limit shard, that
  shard is returned, and its size is still at the limit or above.
\<close>

theorem rotation_same_month_returns_full_shard:
  "u_check_shard_size ex_router (current_shard_path ex_router) ex_world
   \<and> get_shard_for_writing ex_router ex_world
       = Inr (current_shard_path ex_router, ex_router, ex_world)
   \<and> current_shard_path ex_router = ''data/changelog_2026_11.db''
   \<and> u_check_shard_size ex_router ''data/changelog_2026_11.db'' ex_world"
proof -
  have cur: "current_shard_path ex_router = ''data/changelog_2026_11.db''"
    by (simp add: ex_router_def)
  have big: "u_check_shard_size ex_router ''data/changelog_2026_11.db'' ex_world"
    using ex_stat by (simp add: u_check_shard_size_def ex_full_shard_def ex_router_def)
  have "get_shard_for_writing ex_router ex_world
      = Inr (''data/changelog_2026_11.db'', ex_router\<lparr>current_shard_path := ''data/changelog_2026_11.db''\<rparr>, ex_world)"
    using big cur ex_create by (simp add: get_shard_for_writing_def)
  moreover have "ex_router\<lparr>current_shard_path := ''data/changelog_2026_11.db''\<rparr> = ex_router"
    by (simp add: ex_router_def)
  ultimately show ?thesis using cur big by simp
qed

subsection \<open>What each operation leaves unchanged\<close>

lemma resolve_cwd: "cwd w' = cwd w \<Longrightarrow> resolve w' p = resolve w p"
  by (simp add: resolve_def)

lemma write_file_frame [simp]:
  "cwd (write_file w p f) = cwd w" "now (write_file w p f) = now w"
  "slept (write_file w p f) = slept w" "checkpoint_files (write_file w p f) = checkpoint_files w"
  "index_files (write_file w p f) = index_files w" "faults (write_file w p f) = faults w"
  "write_outcomes (write_file w p f) = write_outcomes w" "interrupts (write_file w p f) = interrupts w"
  "schema_bytes (write_file w p f) = schema_bytes w"
  by (simp_all add: write_file_def)

lemma next_write_frame:
  "next_write w = (x, w') \<Longrightarrow>
     cwd w' = cwd w \<and> now w' = now w \<and> slept w' = slept w \<and> checkpoint_files w' = checkpoint_files w
     \<and> index_files w' = index_files w \<and> faults w' = faults w \<and> files w' = files w
     \<and> interrupts w' = interrupts w \<and> schema_bytes w' = schema_bytes w"
  by (auto simp: next_write_def split: list.splits)

lemma next_fault_frame:
  "next_fault w = (x, w') \<Longrightarrow>
     cwd w' = cwd w \<and> now w' = now w \<and> slept w' = slept w \<and> checkpoint_files w' = checkpoint_files w
     \<and> index_files w' = index_files w \<and> write_outcomes w' = write_outcomes w \<and> files w' = files w
     \<and> interrupts w' = interrupts w \<and> schema_bytes w' = schema_bytes w"
  by (auto simp: next_fault_def split: list.splits)

lemma save_frame [simp]:
  "cwd (save ip m w) = cwd w" "now (save ip m w) = now w" "slept (save ip m w) = slept w"
  "checkpoint_files (save ip m w) = checkpoint_files w" "faults (save ip m w) = faults w"
  "files (save ip m w) = files w" "interrupts (save ip m w) = interrupts w"
  "schema_bytes (save ip m w) = schema_bytes w"
  by (auto simp: save_def dest: next_write_frame split: prod.splits write_outcome.splits)

lemma add_page_frame:
  "add_page k sp r w = (r', w') \<Longrightarrow>
     cwd w' = cwd w \<and> now w' = now w \<and> slept w' = slept w \<and> checkpoint_files w' = checkpoint_files w
     \<and> faults w' = faults w \<and> files w' = files w \<and> interrupts w' = interrupts w
     \<and> schema_bytes w' = schema_bytes w
     \<and> base_path r' = base_path r \<and> shard_size_limit_bytes r' = shard_size_limit_bytes r
     \<and> current_shard_path r' = current_shard_path r"
  by (auto simp: add_page_def Let_def split: if_splits)

lemma init_db_frame:
  "init_db p w = Inr w' \<Longrightarrow>
     cwd w' = cwd w \<and> now w' = now w \<and> slept w' = slept w \<and> checkpoint_files w' = checkpoint_files w
     \<and> index_files w' = index_files w \<and> faults w' = faults w \<and> write_outcomes w' = write_outcomes w
     \<and> interrupts w' = interrupts w \<and> schema_bytes w' = schema_bytes w"
  by (auto simp: init_db_def split: option.splits db_content.splits)

lemma get_shard_for_writing_frame:
  "get_shard_for_writing r w = Inr (p, r', w') \<Longrightarrow>
     cwd w' = cwd w \<and> now w' = now w \<and> slept w' = slept w \<and> checkpoint_files w' = checkpoint_files w
     \<and> index_files w' = index_files w \<and> faults w' = faults w \<and> write_outcomes w' = write_outcomes w
     \<and> interrupts w' = interrupts w \<and> schema_bytes w' = schema_bytes w
     \<and> base_path r' = base_path r \<and> shard_size_limit_bytes r' = shard_size_limit_bytes r
     \<and> page_to_shard r' = page_to_shard r \<and> current_shard_path r' = p"
  by (auto simp: get_shard_for_writing_def u_create_new_shard_def Let_def
      dest: init_db_frame split: if_splits sum.splits)

lemma insert_entry_to_shard_frame:
  "insert_entry_to_shard e r w = (x, r', w') \<Longrightarrow>
     cwd w' = cwd w \<and> now w' = now w \<and> slept w' = slept w \<and> checkpoint_files w' = checkpoint_files w
     \<and> interrupts w' = interrupts w \<and> schema_bytes w' = schema_bytes w
     \<and> base_path r' = base_path r \<and> shard_size_limit_bytes r' = shard_size_limit_bytes r"
  unfolding insert_entry_to_shard_def
  by (auto dest!: get_shard_for_writing_frame next_fault_frame add_page_frame
      split: sum.splits prod.splits option.splits db_content.splits if_splits)

lemma sleep_frame:
  "sleep n w = (x, w') \<Longrightarrow>
     slept w' = slept w @ [n] \<and> cwd w' = cwd w \<and> now w' = now w
     \<and> checkpoint_files w' = checkpoint_files w \<and> index_files w' = index_files w
     \<and> faults w' = faults w \<and> write_outcomes w' = write_outcomes w \<and> files w' = files w
     \<and> schema_bytes w' = schema_bytes w \<and> (x = None \<or> x = Some KeyboardInterrupt)"
  by (auto simp: sleep_def Let_def split: list.splits if_splits)

lemma insert_with_retry_slept:
  "insert_with_retry k e r w = (out, r', w') \<Longrightarrow> k \<le> MAX_RETRIES \<Longrightarrow>
     \<exists>n. k + n \<le> MAX_RETRIES \<and> slept w' = slept w @ map (\<lambda>i. RETRY_DELAY * i) [Suc k..<Suc (k + n)]"
proof (induction k e r w arbitrary: out r' w' rule: insert_with_retry.induct)
  case (1 retries e r w)
  show ?case
  proof (cases "retries < MAX_RETRIES")
    case False
    with "1.prems" have "w' = w" by (simp add: insert_with_retry.simps)
    then show ?thesis using "1.prems"(2) by (intro exI [of _ 0]) simp
  next
    case lt: True
    obtain x r1 w1 where ins: "insert_entry_to_shard e r w = (x, r1, w1)"
      by (cases "insert_entry_to_shard e r w") auto
    have sl1: "slept w1 = slept w" using insert_entry_to_shard_frame [OF ins] by simp
    show ?thesis
    proof (cases x)
      case None
      with "1.prems" lt ins have "w' = w1" by (simp add: insert_with_retry.simps)
      then show ?thesis using sl1 "1.prems"(2) by (intro exI [of _ 0]) simp
    next
      case (Some y)
      show ?thesis
      proof (cases "is_OperationalError y")
        case False
        with "1.prems" lt ins Some have "w' = w1"
          by (simp add: insert_with_retry.simps split: if_splits)
        then show ?thesis using sl1 "1.prems"(2) by (intro exI [of _ 0]) simp
      next
        case op: True
        obtain z w2 where sl: "sleep (RETRY_DELAY * (retries + 1)) w1 = (z, w2)"
          by (cases "sleep (RETRY_DELAY * (retries + 1)) w1") auto
        have sl2: "slept w2 = slept w @ [RETRY_DELAY * (retries + 1)]"
          using sleep_frame [OF sl] sl1 by simp
        show ?thesis
        proof (cases z)
          case (Some i)
          with "1.prems" lt ins \<open>x = Some y\<close> op sl have "w' = w2"
            by (simp add: insert_with_retry.simps)
          then show ?thesis using sl2 lt by (intro exI [of _ 1]) simp
        next
          case None
          with "1.prems" lt ins \<open>x = Some y\<close> op sl
          have rec: "insert_with_retry (retries + 1) e r1 w2 = (out, r', w')"
            by (simp add: insert_with_retry.simps)
          from "1.IH" [OF lt ins [symmetric] \<open>x = Some y\<close> refl op sl [symmetric] None rec] lt
          obtain n where n: "retries + 1 + n \<le> MAX_RETRIES"
            "slept w' = slept w2 @ map (\<lambda>i. RETRY_DELAY * i) [Suc (retries + 1)..<Suc (retries + 1 + n)]"
            by auto
          have "[Suc retries..<Suc (retries + Suc n)] = Suc retries # [Suc (retries + 1)..<Suc (retries + 1 + n)]"
            by (simp add: upt_conv_Cons)
          then show ?thesis using n sl2 by (intro exI [of _ "Suc n"]) simp
        qed
      qed
    qed
  qed
qed

lemma insert_with_retry_frame:
  "insert_with_retry k e r w = (out, r', w') \<Longrightarrow>
     cwd w' = cwd w \<and> now w' = now w \<and> checkpoint_files w' = checkpoint_files w
     \<and> schema_bytes w' = schema_bytes w
     \<and> base_path r' = base_path r \<and> shard_size_limit_bytes r' = shard_size_limit_bytes r
     \<and> (out = Inserted \<or> out = Failed \<or> out = Raised KeyboardInterrupt)"
proof (induction k e r w arbitrary: out r' w' rule: insert_with_retry.induct)
  case (1 retries e r w)
  show ?case
  proof (cases "retries < MAX_RETRIES")
    case False
    with "1.prems" show ?thesis by (simp add: insert_with_retry.simps)
  next
    case lt: True
    obtain x r1 w1 where ins: "insert_entry_to_shard e r w = (x, r1, w1)"
      by (cases "insert_entry_to_shard e r w") auto
    note f1 = insert_entry_to_shard_frame [OF ins]
    show ?thesis
    proof (cases x)
      case None
      with "1.prems" lt ins f1 show ?thesis by (simp add: insert_with_retry.simps)
    next
      case (Some y)
      show ?thesis
      proof (cases "is_OperationalError y")
        case False
        with "1.prems" lt ins Some f1 show ?thesis
          by (auto simp: insert_with_retry.simps is_Exception_def split: if_splits)
      next
        case op: True
        obtain z w2 where sl: "sleep (RETRY_DELAY * (retries + 1)) w1 = (z, w2)"
          by (cases "sleep (RETRY_DELAY * (retries + 1)) w1") auto
        note f2 = sleep_frame [OF sl]
        show ?thesis
        proof (cases z)
          case (Some i)
          with "1.prems" lt ins \<open>x = Some y\<close> op sl f1 f2 show ?thesis
            by (auto simp: insert_with_retry.simps)
        next
          case None
          with "1.prems" lt ins \<open>x = Some y\<close> op sl
          have rec: "insert_with_retry (retries + 1) e r1 w2 = (out, r', w')"
            by (simp add: insert_with_retry.simps)
          from "1.IH" [OF lt ins [symmetric] \<open>x = Some y\<close> refl op sl [symmetric] None rec] f1 f2
          show ?thesis by simp
        qed
      qed
    qed
  qed
qed

lemma insert_with_retry_permanent:
  assumes "insert_entry_to_shard e r w = (Some x, r1, w1)"
    and "x \<noteq> OperationalError" and "x \<noteq> KeyboardInterrupt"
  shows "insert_with_retry 0 e r w = (Failed, r1, w1)"
  using assms
  by (simp add: insert_with_retry.simps [of 0] MAX_RETRIES_def is_OperationalError_def is_Exception_def)



lemma process_batch_count:
  "process_batch es c s = (Inr n, s') \<Longrightarrow>
     n = c + length (filter counted (outcomes es s)) \<and> length (outcomes es s) = length es"
proof (induction es arbitrary: c s)
  case Nil
  then show ?case by simp
next
  case (Cons e es)
  obtain out s1 where pe: "process_entry e s = (out, s1)" by (cases "process_entry e s") auto
  show ?case
  proof (cases out)
    case (Raised x)
    with Cons.prems pe show ?thesis by auto
  next
    case Skipped
    with Cons.prems pe have "process_batch es (c + 1) s1 = (Inr n, s')" by simp
    from Cons.IH [OF this] pe Skipped show ?thesis by (simp add: counted_def)
  next
    case Inserted
    with Cons.prems pe have "process_batch es (c + 1) s1 = (Inr n, s')" by simp
    from Cons.IH [OF this] pe Inserted show ?thesis by (simp add: counted_def)
  next
    case Failed
    with Cons.prems pe have "process_batch es c s1 = (Inr n, s')" by simp
    from Cons.IH [OF this] pe Failed show ?thesis by (simp add: counted_def)
  qed
qed


lemma run_batch_checkpoint:
  assumes "run_batch a offset bn s = (None, s')"
  shows "\<exists>entries. get_entries_batch (source_path a) offset (batch_size a) (env s) = Inr entries
          \<and> entries_processed (ck s') = offset + int (length (filter counted (outcomes entries s)))
          \<and> length (outcomes entries s) = length entries
          \<and> last_batch (ck s') = bn"
proof -
  from assms obtain entries where
    ge: "get_entries_batch (source_path a) offset (batch_size a) (env s) = Inr entries"
    by (auto simp: run_batch_def split: sum.splits)
  from assms ge obtain n s1 where pb: "process_batch entries 0 s = (Inr n, s1)"
    by (auto simp: run_batch_def split: sum.splits prod.splits)
  from assms ge pb have "entries_processed (ck s') = offset + int n" "last_batch (ck s') = bn"
    by (auto simp: run_batch_def Let_def split: sum.splits prod.splits)
  with process_batch_count [OF pb] ge show ?thesis by auto
qed






lemma add_page_index:
  "add_page k sp r w = (r', w') \<Longrightarrow> page_to_shard r' = (page_to_shard r)(k \<mapsto> resolve w sp)"
  by (auto simp: add_page_def Let_def split: if_splits)

lemma add_pages_index:
  "add_pages ks sp r w = (r', w') \<Longrightarrow>
     (\<forall>k. page_to_shard r' k = (if k \<in> set ks then Some (resolve w sp) else page_to_shard r k))
     \<and> cwd w' = cwd w \<and> files w' = files w \<and> faults w' = faults w"
proof (induction ks arbitrary: r w)
  case Nil
  then show ?case by simp
next
  case (Cons k ks)
  obtain r1 w1 where ap: "add_page k sp r w = (r1, w1)" by (cases "add_page k sp r w") auto
  with Cons.prems have rec: "add_pages ks sp r1 w1 = (r', w')" by simp
  note f = add_page_frame [OF ap]
  have "resolve w1 sp = resolve w sp" using f by (simp add: resolve_def)
  with Cons.IH [OF rec] add_page_index [OF ap] f show ?case by auto
qed

lemma read_rows_cong:
  "cwd w' = cwd w \<Longrightarrow> files w' = files w \<Longrightarrow> read_rows p w' = read_rows p w"
  by (simp add: read_rows_def stat_def resolve_def)

lemma found_cong:
  "cwd w' = cwd w \<Longrightarrow> files w' = files w \<Longrightarrow> found ps fs w' = found ps fs w"
  by (induction ps arbitrary: fs) (auto simp: read_rows_cong [of w' w] split: sum.splits)

lemma scan_shard_result:
  assumes "scan_shard p w = (res, w')"
  shows "faults w' = tl (faults w) \<and> cwd w' = cwd w \<and> files w' = files w
     \<and> res = (if faults w \<noteq> [] \<and> hd (faults w) \<noteq> None then Inl (the (hd (faults w)))
              else (case read_rows p w of Inl x \<Rightarrow> Inl x | Inr rows \<Rightarrow> Inr (map page_id rows)))"
proof -
  obtain x w1 where nf: "next_fault w = (x, w1)" by (cases "next_fault w") auto
  note f = next_fault_frame [OF nf]
  have rr: "read_rows p w1 = read_rows p w" using f by (intro read_rows_cong) auto
  have x: "x = (if faults w \<noteq> [] then hd (faults w) else None)" "faults w1 = tl (faults w)"
    using nf by (auto simp: next_fault_def split: list.splits)
  have w': "w' = w1" using assms nf by (auto simp: scan_shard_def split: option.splits sum.splits)
  show ?thesis
  proof (cases x)
    case None
    with assms nf rr x f w' show ?thesis
      by (auto simp: scan_shard_def split: sum.splits if_splits)
  next
    case (Some y)
    with assms nf x f w' show ?thesis
      by (auto simp: scan_shard_def split: if_splits)
  qed
qed

lemma scan_all_index:
  "scan_all ps r w = (None, r', w') \<Longrightarrow>
     page_to_shard r' k =
       (case owner k (found ps (faults w) w) of
          Some q \<Rightarrow> Some (resolve w q)
        | None \<Rightarrow> page_to_shard r k)"
proof (induction ps arbitrary: r w)
  case Nil
  then show ?case by simp
next
  case (Cons p ps)
  obtain res w1 where sc: "scan_shard p w = (res, w1)" by (cases "scan_shard p w") auto
  note f1 = scan_shard_result [OF sc]
  have fc: "\<And>fs. found ps fs w1 = found ps fs w" using f1 by (intro found_cong) auto
  have rs: "\<And>q. resolve w1 q = resolve w q" using f1 by (simp add: resolve_def)
  show ?case
  proof (cases res)
    case (Inl x)
    with Cons.prems sc have rec: "scan_all ps r w1 = (None, r', w')"
      by (auto split: if_splits)
    have "found (p # ps) (faults w) w = found ps (tl (faults w)) w"
      using f1 Inl by (auto split: if_splits sum.splits)
    with Cons.IH [OF rec] f1 fc rs show ?thesis by (simp split: option.splits)
  next
    case (Inr ks)
    obtain r2 w2 where ap: "add_pages ks p r w1 = (r2, w2)" by (cases "add_pages ks p r w1") auto
    with Cons.prems sc Inr have rec: "scan_all ps r2 w2 = (None, r', w')" by simp
    note f2 = add_pages_index [OF ap]
    have fc2: "\<And>fs. found ps fs w2 = found ps fs w" using f1 f2 by (intro found_cong) auto
    have rs2: "\<And>q. resolve w2 q = resolve w q" using f1 f2 by (simp add: resolve_def)
    have fnd: "found (p # ps) (faults w) w = (p, ks) # found ps (tl (faults w)) w"
      using f1 Inr by (auto split: if_splits sum.splits)
    from Cons.IH [OF rec] f1 f2 fc2 rs2 rs show ?thesis
      unfolding fnd by (auto split: option.splits)
  qed
qed

lemma owner_Some:
  "owner k F = Some p \<Longrightarrow> \<exists>ks. (p, ks) \<in> set F \<and> k \<in> set ks"
  by (induction F) (auto split: option.splits if_splits)

lemma owner_None: "(owner k F = None) = (\<forall>(p, ks) \<in> set F. k \<notin> set ks)"
  by (induction F) (auto split: option.splits if_splits)



subsection \<open>Evaluation of the migration scenarios\<close>

lemmas eval_defs = run_batch_def get_entries_batch_def read_rows_def stat_def resolve_def
  process_entry_def insert_with_retry.simps insert_entry_to_shard_def get_shard_for_writing_def
  u_check_shard_size_def next_fault_def add_page_def save_def next_write_def write_file_def
  index_path_def join_def is_Exception_def is_OperationalError_def MAX_RETRIES_def Let_def
  default_checkpoint_def sleep_def RETRY_DELAY_def
  migrate_database_def get_shard_manager_def ShardedChangelogDB_def u_load_index_def
  u_get_or_create_current_shard_def u_get_all_shard_paths_def name_in_def is_shard_name_def
  startswith_def endswith_def mtime_of_def u_create_new_shard_def init_db_def new_shard_name_def
  pad2_def show_nat.simps digit_char_def get_entry_count_def start_of_run_def checkpoint_path_def
  load_checkpoint_def os_path_exists_def json_load_def save_checkpoint_def pause_after_def LONG_PAUSE_FREQUENCY_def
  BATCH_PAUSE_def LONG_PAUSE_def rebuild_index_def scan_shard_def remove_checkpoint_def
  saved_progress_def loop_summary_def run_summary_def

lemmas mig_defs = mig_args_def mig_world_def mig_router_def legacy_db_def empty_shard_def
  e1_def e2_def e3_def ex_clock_def

lemmas c3_defs = first_checkpoint_def interrupted_world_def refused_save_world_def
  interrupted_router_def after_interrupt_world_def resumed_state_def

lemmas c2_defs = big1_def oct_world_def big_args_def after_first_run_def second_run_world_def
  final_world_def keys_of_shard_def

lemma stat_update [simp]:
  "stat (w\<lparr>faults := a\<rparr>) p = stat w p"
  "stat (w\<lparr>slept := b\<rparr>) p = stat w p"
  "stat (w\<lparr>interrupts := c\<rparr>) p = stat w p"
  "stat (w\<lparr>write_outcomes := d\<rparr>) p = stat w p"
  "stat (w\<lparr>index_files := i\<rparr>) p = stat w p"
  "stat (w\<lparr>checkpoint_files := j\<rparr>) p = stat w p"
  by (simp_all add: stat_def resolve_def)

lemma check_size_update [simp]:
  "u_check_shard_size r p (w\<lparr>faults := a\<rparr>) = u_check_shard_size r p w"
  "u_check_shard_size r p (w\<lparr>slept := b\<rparr>) = u_check_shard_size r p w"
  "u_check_shard_size r p (w\<lparr>interrupts := c\<rparr>) = u_check_shard_size r p w"
  "u_check_shard_size r p (w\<lparr>write_outcomes := d\<rparr>) = u_check_shard_size r p w"
  "u_check_shard_size r p (w\<lparr>index_files := i\<rparr>) = u_check_shard_size r p w"
  "u_check_shard_size r p (w\<lparr>checkpoint_files := j\<rparr>) = u_check_shard_size r p w"
  by (simp_all add: u_check_shard_size_def)

lemma insert_entry_to_shard_fault:
  "\<not> u_check_shard_size r (current_shard_path r) w \<Longrightarrow> faults w = Some x # fs \<Longrightarrow>
     insert_entry_to_shard e r w = (Some x, r, w\<lparr>faults := fs\<rparr>)"
  by (simp add: insert_entry_to_shard_def get_shard_for_writing_def next_fault_def)

lemma mig_small: "\<not> u_check_shard_size mig_router ''data/changelog_2026_11.db'' mig_world"
  by (simp add: u_check_shard_size_def stat_def resolve_def mig_world_def mig_router_def empty_shard_def)

lemma sleep_quiet: "interrupts w = [] \<Longrightarrow> sleep n w = (None, w\<lparr>slept := slept w @ [n]\<rparr>)"
  by (simp add: sleep_def Let_def)

lemma locked_gives_up:
  "process_entry e1 locked_state = (Failed, gave_up_state)"
proof -
  have cur: "current_shard_path mig_router = ''data/changelog_2026_11.db''"
    by (simp add: mig_router_def)
  have i0: "interrupts mig_world = []" "slept mig_world = []" "faults mig_world = []"
    by (simp_all add: mig_world_def)
  have "insert_with_retry 0 e1 mig_router
          (mig_world\<lparr>faults := [Some OperationalError, Some OperationalError, Some OperationalError]\<rparr>)
        = (Failed, mig_router, mig_world\<lparr>faults := [], slept := [5, 10, 15]\<rparr>)"
    using mig_small
    by (simp add: insert_with_retry.simps insert_entry_to_shard_fault cur MAX_RETRIES_def
        RETRY_DELAY_def is_OperationalError_def sleep_quiet i0)
  moreover have "mig_world\<lparr>faults := [], slept := [5, 10, 15]\<rparr> = mig_world\<lparr>slept := [5, 10, 15]\<rparr>"
    by (simp add: mig_world_def)
  ultimately show ?thesis
    by (simp add: process_entry_def locked_state_def gave_up_state_def default_checkpoint_def e1_def)
qed

subsection \<open>Retries\<close>

lemma failed_attempts_run:
  "failed_attempts n k e r w = Some (r1, w1) \<Longrightarrow> k + n \<le> MAX_RETRIES \<Longrightarrow>
     insert_with_retry k e r w = insert_with_retry (k + n) e r1 w1
     \<and> slept w1 = slept w @ map (\<lambda>i. RETRY_DELAY * i) [Suc k..<Suc (k + n)]"
proof (induction n arbitrary: k r w)
  case 0
  then show ?case by simp
next
  case (Suc n)
  obtain x r2 w2 where ins: "insert_entry_to_shard e r w = (x, r2, w2)"
    by (cases "insert_entry_to_shard e r w") auto
  from Suc.prems(1) ins have x: "x = Some OperationalError"
    by (auto split: option.splits if_splits)
  obtain y w3 where sl: "sleep (RETRY_DELAY * (k + 1)) w2 = (y, w3)"
    by (cases "sleep (RETRY_DELAY * (k + 1)) w2") auto
  from Suc.prems(1) ins x sl have y: "y = None"
    and rest: "failed_attempts n (k + 1) e r2 w3 = Some (r1, w1)"
    by (auto split: option.splits)
  have lt: "k < MAX_RETRIES" using Suc.prems(2) by simp
  have step: "insert_with_retry k e r w = insert_with_retry (k + 1) e r2 w3"
    using lt ins x sl y
    by (subst insert_with_retry.simps) (simp add: is_OperationalError_def)
  have sl3: "slept w3 = slept w @ [RETRY_DELAY * (k + 1)]"
    using insert_entry_to_shard_frame [OF ins] sleep_frame [OF sl] by simp
  have up: "[Suc k..<Suc (k + Suc n)] = Suc k # [Suc (k + 1)..<Suc (k + 1 + n)]"
    by (simp add: upt_conv_Cons)
  from Suc.IH [OF rest] Suc.prems(2) step sl3 show ?case
    unfolding up by simp
qed

lemma failed_attempts_Suc:
  "failed_attempts (Suc n) k e r w =
     (case failed_attempts (Suc 0) k e r w of
        None \<Rightarrow> None
      | Some (r1, w1) \<Rightarrow> failed_attempts n (k + 1) e r1 w1)"
  by (simp split: prod.splits option.splits)

lemma failed_attempts_longest:
  "\<exists>n \<le> N. \<exists>r1 w1. failed_attempts n k e r w = Some (r1, w1)
       \<and> (n < N \<longrightarrow> failed_attempts (Suc 0) (k + n) e r1 w1 = None)"
proof (induction N arbitrary: k r w)
  case 0
  then show ?case by simp
next
  case (Suc N)
  show ?case
  proof (cases "failed_attempts (Suc 0) k e r w")
    case None
    then show ?thesis by (intro exI [of _ 0]) simp
  next
    case (Some p)
    obtain r' w' where p: "p = (r', w')" by (cases p) auto
    from Suc.IH [of "k + 1" r' w'] obtain n r1 w1 where
      n: "n \<le> N" "failed_attempts n (k + 1) e r' w' = Some (r1, w1)"
      "n < N \<longrightarrow> failed_attempts (Suc 0) (k + 1 + n) e r1 w1 = None" by blast
    have "failed_attempts (Suc n) k e r w = Some (r1, w1)"
      using Some p n(2) by (subst failed_attempts_Suc) simp
    with n show ?thesis by (intro exI [of _ "Suc n"]) auto
  qed
qed

lemma insert_with_retry_ending:
  assumes "k < MAX_RETRIES" and "insert_entry_to_shard e r w = (x, r2, w2)"
  shows "(x = None \<longrightarrow> insert_with_retry k e r w = (Inserted, r2, w2))
       \<and> (x \<noteq> None \<and> x \<noteq> Some OperationalError \<and> x \<noteq> Some KeyboardInterrupt
            \<longrightarrow> insert_with_retry k e r w = (Failed, r2, w2))
       \<and> (x = Some KeyboardInterrupt \<longrightarrow> insert_with_retry k e r w = (Raised KeyboardInterrupt, r2, w2))
       \<and> (x = Some OperationalError \<and> sleep (RETRY_DELAY * (k + 1)) w2 = (Some y, w3)
            \<longrightarrow> insert_with_retry k e r w = (Raised y, r2, w3))"
  using assms insert_with_retry.simps [of k e r w]
  by (auto simp: is_OperationalError_def is_Exception_def split: if_splits)

lemma insert_with_retry_exhausted:
  "insert_with_retry MAX_RETRIES e r w = (Failed, r, w)"
  by (subst insert_with_retry.simps) simp


lemma process_entry_of_retry:
  assumes "page_id e \<notin> set (processed_page_ids (ck s))"
    and "insert_with_retry 0 e (shard_manager s) (env s) = (o2, r', w')"
  shows "process_entry e s =
      (if o2 = Inserted
       then (Inserted,
             s\<lparr>ck := (ck s)\<lparr>processed_page_ids := processed_page_ids (ck s) @ [page_id e]\<rparr>,
               shard_manager := r', env := w'\<rparr>)
       else (o2, s\<lparr>shard_manager := r', env := w'\<rparr>))"
  using assms by (cases o2) (simp_all add: process_entry_def)

lemma process_entry_after_failed_attempts:
  assumes new: "page_id e \<notin> set (processed_page_ids (ck s))"
    and n: "n \<le> MAX_RETRIES"
    and fa: "failed_attempts n 0 e (shard_manager s) (env s) = Some (r1, w1)"
  shows "slept w1 = slept (env s) @ map (\<lambda>i. RETRY_DELAY * i) [1..<Suc n]"
    and "n = MAX_RETRIES \<Longrightarrow> process_entry e s = (Failed, s\<lparr>shard_manager := r1, env := w1\<rparr>)"
    and "n < MAX_RETRIES \<Longrightarrow> insert_entry_to_shard e r1 w1 = (None, r2, w2) \<Longrightarrow>
           process_entry e s =
             (Inserted,
              s\<lparr>ck := (ck s)\<lparr>processed_page_ids := processed_page_ids (ck s) @ [page_id e]\<rparr>,
                shard_manager := r2, env := w2\<rparr>)"
    and "n < MAX_RETRIES \<Longrightarrow> insert_entry_to_shard e r1 w1 = (Some x, r2, w2) \<Longrightarrow>
           x \<noteq> OperationalError \<Longrightarrow> x \<noteq> KeyboardInterrupt \<Longrightarrow>
           process_entry e s = (Failed, s\<lparr>shard_manager := r2, env := w2\<rparr>)"
    and "n < MAX_RETRIES \<Longrightarrow> insert_entry_to_shard e r1 w1 = (Some KeyboardInterrupt, r2, w2) \<Longrightarrow>
           process_entry e s = (Raised KeyboardInterrupt, s\<lparr>shard_manager := r2, env := w2\<rparr>)"
    and "n < MAX_RETRIES \<Longrightarrow> insert_entry_to_shard e r1 w1 = (Some OperationalError, r2, w2) \<Longrightarrow>
           sleep (RETRY_DELAY * (n + 1)) w2 = (Some y, w3) \<Longrightarrow>
           process_entry e s = (Raised y, s\<lparr>shard_manager := r2, env := w3\<rparr>)"
proof -
  from failed_attempts_run [OF fa] n have
    run: "insert_with_retry 0 e (shard_manager s) (env s) = insert_with_retry n e r1 w1"
    and sl: "slept w1 = slept (env s) @ map (\<lambda>i. RETRY_DELAY * i) [Suc 0..<Suc n]"
    by simp_all
  show "slept w1 = slept (env s) @ map (\<lambda>i. RETRY_DELAY * i) [1..<Suc n]"
    using sl by simp
  show "process_entry e s = (Failed, s\<lparr>shard_manager := r1, env := w1\<rparr>)" if "n = MAX_RETRIES"
    using process_entry_of_retry [OF new, of Failed r1 w1] run that
    by (simp add: insert_with_retry_exhausted)
  show "process_entry e s =
             (Inserted,
              s\<lparr>ck := (ck s)\<lparr>processed_page_ids := processed_page_ids (ck s) @ [page_id e]\<rparr>,
                shard_manager := r2, env := w2\<rparr>)"
    if "n < MAX_RETRIES" "insert_entry_to_shard e r1 w1 = (None, r2, w2)"
    using process_entry_of_retry [OF new, of Inserted r2 w2] run
      insert_with_retry_ending [OF that] by simp
  show "process_entry e s = (Failed, s\<lparr>shard_manager := r2, env := w2\<rparr>)"
    if "n < MAX_RETRIES" "insert_entry_to_shard e r1 w1 = (Some x, r2, w2)"
      "x \<noteq> OperationalError" "x \<noteq> KeyboardInterrupt"
    using process_entry_of_retry [OF new, of Failed r2 w2] run
      insert_with_retry_ending [OF that(1,2)] that(3,4) by simp
  show "process_entry e s = (Raised KeyboardInterrupt, s\<lparr>shard_manager := r2, env := w2\<rparr>)"
    if "n < MAX_RETRIES" "insert_entry_to_shard e r1 w1 = (Some KeyboardInterrupt, r2, w2)"
    using process_entry_of_retry [OF new, of "Raised KeyboardInterrupt" r2 w2] run
      insert_with_retry_ending [OF that] by simp
  show "process_entry e s = (Raised y, s\<lparr>shard_manager := r2, env := w3\<rparr>)"
    if "n < MAX_RETRIES" "insert_entry_to_shard e r1 w1 = (Some OperationalError, r2, w2)"
      "sleep (RETRY_DELAY * (n + 1)) w2 = (Some y, w3)"
    using process_entry_of_retry [OF new, of "Raised y" r2 w3] run
      insert_with_retry_ending [OF that(1,2), of y w3] that(3) by simp
qed

text \<open>
  C6. For a record whose key is not yet in \<open>processed_page_ids\<close>. The runner sleeps after
  each retryable (\<open>OperationalError\<close>) failure, the n-th time for \<open>RETRY_DELAY * n\<close>
  seconds, and at most \<open>MAX_RETRIES\<close> times; the record ends inserted, failed, or with
  the operator's cancellation. When it has failed its key is not added to
  \<open>processed_page_ids\<close> and \<open>process_batch\<close> goes on with the next record. In detail:
  some number \<open>n \<le> MAX_RETRIES\<close> of attempts fail with a retryable error and are slept
  after, and that is all of them or the next attempt does not; and for every such \<open>n\<close>
  the sleeps so far are \<open>RETRY_DELAY * 1, ..., RETRY_DELAY * n\<close> and
  \<^item> if \<open>n = MAX_RETRIES\<close>, no further attempt is made and the record has failed, the
    checkpoint unchanged;
  \<^item> if \<open>n < MAX_RETRIES\<close>, one more attempt is made, in the state the sleeps left: when
    it succeeds the record is inserted and its key appended to \<open>processed_page_ids\<close>;
    when it raises a non-retryable error the record has failed at once, the checkpoint
    unchanged; when it or the sleep after it is cancelled, the cancellation leaves the loop.
\<close>

theorem retry_bounded_then_move_on:
  assumes "process_entry e s = (out, s')"
    and "page_id e \<notin> set (processed_page_ids (ck s))"
  shows "(\<exists>n \<le> MAX_RETRIES.
            slept (env s') = slept (env s) @ map (\<lambda>i. RETRY_DELAY * i) [1..<Suc n])
       \<and> (out = Inserted \<or> out = Failed \<or> out = Raised KeyboardInterrupt)
       \<and> (out = Failed \<longrightarrow>
             processed_page_ids (ck s') = processed_page_ids (ck s)
           \<and> process_batch (e # es) c s = process_batch es c s')
       \<and> (\<forall>x r1 w1. insert_entry_to_shard e (shard_manager s) (env s) = (Some x, r1, w1)
             \<and> x \<noteq> OperationalError \<and> x \<noteq> KeyboardInterrupt
           \<longrightarrow> out = Failed \<and> slept (env s') = slept (env s))
       \<and> (\<exists>n \<le> MAX_RETRIES. \<exists>r1 w1.
             failed_attempts n 0 e (shard_manager s) (env s) = Some (r1, w1)
           \<and> (n < MAX_RETRIES \<longrightarrow> failed_attempts (Suc 0) n e r1 w1 = None))
       \<and> (\<forall>n r1 w1. n \<le> MAX_RETRIES
             \<and> failed_attempts n 0 e (shard_manager s) (env s) = Some (r1, w1) \<longrightarrow>
             slept w1 = slept (env s) @ map (\<lambda>i. RETRY_DELAY * i) [1..<Suc n]
           \<and> (n = MAX_RETRIES \<longrightarrow>
                 out = Failed \<and> s' = s\<lparr>shard_manager := r1, env := w1\<rparr>)
           \<and> (n < MAX_RETRIES \<longrightarrow>
                (\<forall>r2 w2. insert_entry_to_shard e r1 w1 = (None, r2, w2) \<longrightarrow>
                    out = Inserted
                  \<and> s' = s\<lparr>ck := (ck s)\<lparr>processed_page_ids :=
                                           processed_page_ids (ck s) @ [page_id e]\<rparr>,
                            shard_manager := r2, env := w2\<rparr>)
              \<and> (\<forall>x r2 w2. insert_entry_to_shard e r1 w1 = (Some x, r2, w2)
                    \<and> x \<noteq> OperationalError \<and> x \<noteq> KeyboardInterrupt \<longrightarrow>
                    out = Failed \<and> s' = s\<lparr>shard_manager := r2, env := w2\<rparr>)
              \<and> (\<forall>r2 w2. insert_entry_to_shard e r1 w1 = (Some KeyboardInterrupt, r2, w2) \<longrightarrow>
                    out = Raised KeyboardInterrupt \<and> s' = s\<lparr>shard_manager := r2, env := w2\<rparr>)
              \<and> (\<forall>r2 w2 y w3. insert_entry_to_shard e r1 w1 = (Some OperationalError, r2, w2)
                    \<and> sleep (RETRY_DELAY * (n + 1)) w2 = (Some y, w3) \<longrightarrow>
                    out = Raised y \<and> s' = s\<lparr>shard_manager := r2, env := w3\<rparr>)))"
proof -
  obtain o2 r' w' where iw: "insert_with_retry 0 e (shard_manager s) (env s) = (o2, r', w')"
    by (cases "insert_with_retry 0 e (shard_manager s) (env s)") auto
  note fr = insert_with_retry_frame [OF iw]
  have o2: "o2 = Inserted \<or> o2 = Failed \<or> o2 = Raised KeyboardInterrupt" using fr by simp
  have out: "out = o2" and env: "env s' = w'"
    using assms iw o2 by (auto simp: process_entry_def)
  have ckf: "o2 = Failed \<Longrightarrow> s' = s\<lparr>shard_manager := r', env := w'\<rparr>"
    using assms iw by (auto simp: process_entry_def)
  from insert_with_retry_slept [OF iw] obtain n where
    n: "n \<le> MAX_RETRIES" "slept w' = slept (env s) @ map (\<lambda>i. RETRY_DELAY * i) [1..<Suc n]"
    by auto
  have p1: "\<exists>n \<le> MAX_RETRIES.
      slept (env s') = slept (env s) @ map (\<lambda>i. RETRY_DELAY * i) [1..<Suc n]"
    using n env by blast
  have p2: "out = Inserted \<or> out = Failed \<or> out = Raised KeyboardInterrupt"
    using o2 out by simp
  have p3: "out = Failed \<longrightarrow> processed_page_ids (ck s') = processed_page_ids (ck s)
           \<and> process_batch (e # es) c s = process_batch es c s'"
    using ckf out assms(1) by auto
  have p4: "\<forall>x r1 w1. insert_entry_to_shard e (shard_manager s) (env s) = (Some x, r1, w1)
             \<and> x \<noteq> OperationalError \<and> x \<noteq> KeyboardInterrupt
           \<longrightarrow> out = Failed \<and> slept (env s') = slept (env s)"
  proof (intro allI impI)
    fix x r1 w1
    assume h: "insert_entry_to_shard e (shard_manager s) (env s) = (Some x, r1, w1)
             \<and> x \<noteq> OperationalError \<and> x \<noteq> KeyboardInterrupt"
    then have "insert_with_retry 0 e (shard_manager s) (env s) = (Failed, r1, w1)"
      by (intro insert_with_retry_permanent) auto
    with iw out env have "out = Failed" "env s' = w1" by auto
    moreover have "slept w1 = slept (env s)"
      using insert_entry_to_shard_frame h by blast
    ultimately show "out = Failed \<and> slept (env s') = slept (env s)" by simp
  qed
  have p5: "\<exists>n \<le> MAX_RETRIES. \<exists>r1 w1.
             failed_attempts n 0 e (shard_manager s) (env s) = Some (r1, w1)
           \<and> (n < MAX_RETRIES \<longrightarrow> failed_attempts (Suc 0) n e r1 w1 = None)"
    using failed_attempts_longest [of MAX_RETRIES 0 e "shard_manager s" "env s"] by simp
  note pa = process_entry_after_failed_attempts [OF assms(2)]
  have p6: "slept w1 = slept (env s) @ map (\<lambda>i. RETRY_DELAY * i) [1..<Suc n]
           \<and> (n = MAX_RETRIES \<longrightarrow>
                 out = Failed \<and> s' = s\<lparr>shard_manager := r1, env := w1\<rparr>)
           \<and> (n < MAX_RETRIES \<longrightarrow>
                (\<forall>r2 w2. insert_entry_to_shard e r1 w1 = (None, r2, w2) \<longrightarrow>
                    out = Inserted
                  \<and> s' = s\<lparr>ck := (ck s)\<lparr>processed_page_ids :=
                                           processed_page_ids (ck s) @ [page_id e]\<rparr>,
                            shard_manager := r2, env := w2\<rparr>)
              \<and> (\<forall>x r2 w2. insert_entry_to_shard e r1 w1 = (Some x, r2, w2)
                    \<and> x \<noteq> OperationalError \<and> x \<noteq> KeyboardInterrupt \<longrightarrow>
                    out = Failed \<and> s' = s\<lparr>shard_manager := r2, env := w2\<rparr>)
              \<and> (\<forall>r2 w2. insert_entry_to_shard e r1 w1 = (Some KeyboardInterrupt, r2, w2) \<longrightarrow>
                    out = Raised KeyboardInterrupt \<and> s' = s\<lparr>shard_manager := r2, env := w2\<rparr>)
              \<and> (\<forall>r2 w2 y w3. insert_entry_to_shard e r1 w1 = (Some OperationalError, r2, w2)
                    \<and> sleep (RETRY_DELAY * (n + 1)) w2 = (Some y, w3) \<longrightarrow>
                    out = Raised y \<and> s' = s\<lparr>shard_manager := r2, env := w3\<rparr>))"
    if h: "n \<le> MAX_RETRIES \<and> failed_attempts n 0 e (shard_manager s) (env s) = Some (r1, w1)"
    for n r1 w1
  proof -
    from h have le: "n \<le> MAX_RETRIES"
      and fa: "failed_attempts n 0 e (shard_manager s) (env s) = Some (r1, w1)" by simp_all
    have a: "slept w1 = slept (env s) @ map (\<lambda>i. RETRY_DELAY * i) [1..<Suc n]"
      by (rule pa(1) [OF le fa])
    have b: "out = Failed \<and> s' = s\<lparr>shard_manager := r1, env := w1\<rparr>" if "n = MAX_RETRIES"
      using pa(2) [OF le fa that] assms(1) by simp
    have c: "out = Inserted
                  \<and> s' = s\<lparr>ck := (ck s)\<lparr>processed_page_ids :=
                                           processed_page_ids (ck s) @ [page_id e]\<rparr>,
                            shard_manager := r2, env := w2\<rparr>"
      if "n < MAX_RETRIES" "insert_entry_to_shard e r1 w1 = (None, r2, w2)" for r2 w2
      using pa(3) [OF le fa that] assms(1) by simp
    have d: "out = Failed \<and> s' = s\<lparr>shard_manager := r2, env := w2\<rparr>"
      if "n < MAX_RETRIES" "insert_entry_to_shard e r1 w1 = (Some x, r2, w2)
                    \<and> x \<noteq> OperationalError \<and> x \<noteq> KeyboardInterrupt" for x r2 w2
      using pa(4) [OF le fa that(1), of x r2 w2] that(2) assms(1) by simp
    have f: "out = Raised KeyboardInterrupt \<and> s' = s\<lparr>shard_manager := r2, env := w2\<rparr>"
      if "n < MAX_RETRIES" "insert_entry_to_shard e r1 w1 = (Some KeyboardInterrupt, r2, w2)"
      for r2 w2
      using pa(5) [OF le fa that] assms(1) by simp
    have g: "out = Raised y \<and> s' = s\<lparr>shard_manager := r2, env := w3\<rparr>"
      if "n < MAX_RETRIES" "insert_entry_to_shard e r1 w1 = (Some OperationalError, r2, w2)
                    \<and> sleep (RETRY_DELAY * (n + 1)) w2 = (Some y, w3)" for r2 w2 y w3
      using pa(6) [OF le fa that(1), of r2 w2 y w3] that(2) assms(1) by simp
    show ?thesis using a b c d f g by blast
  qed
  show ?thesis
    apply (intro conjI)
         apply (rule p1)
        apply (rule p2)
       apply (rule p3)
      apply (rule p4)
     apply (rule p5)
    using p6 apply blast
    done
qed


lemmas c6_defs = locked_state_def gave_up_state_def retry_once_state_def retried_state_def
  inserted_on_retry_state_def retry_then_reject_state_def failing_first_state_def

lemma locked_attempts:
  "failed_attempts MAX_RETRIES 0 e1 (shard_manager locked_state) (env locked_state)
     = Some (mig_router, env gave_up_state)"
  by (simp add: numeral_3_eq_3 eval_defs mig_defs c6_defs)

lemma retry_once_attempts:
  "failed_attempts (Suc 0) 0 e1 (shard_manager retry_once_state) (env retry_once_state)
     = Some (mig_router, env retried_state)"
  by (simp add: eval_defs mig_defs c6_defs)

lemma retry_once_insert:
  "insert_entry_to_shard e1 mig_router (env retried_state)
     = (None, shard_manager inserted_on_retry_state, env inserted_on_retry_state)"
  by (simp add: eval_defs mig_defs c6_defs)

lemma retry_then_reject_attempts:
  "failed_attempts (Suc 0) 0 e1 (shard_manager retry_then_reject_state) (env retry_then_reject_state)
     = Some (mig_router, mig_world\<lparr>faults := [Some IntegrityError], slept := [5]\<rparr>)"
  by (simp add: eval_defs mig_defs c6_defs)

lemma retry_then_reject_insert:
  "insert_entry_to_shard e1 mig_router (mig_world\<lparr>faults := [Some IntegrityError], slept := [5]\<rparr>)
     = (Some IntegrityError, mig_router, env retried_state)"
  by (simp add: eval_defs mig_defs c6_defs)

theorem retry_bounded_then_move_on_witness:
  "process_entry e1 locked_state = (Failed, gave_up_state)
   \<and> slept (env gave_up_state) = slept (env locked_state) @ [5, 10, 15]
   \<and> processed_page_ids (ck gave_up_state) = processed_page_ids (ck locked_state)
   \<and> process_batch [e1, e2] 0 locked_state = process_batch [e2] 0 gave_up_state
   \<and> fst (process_entry e1 failing_first_state) = Failed
   \<and> slept (env (snd (process_entry e1 failing_first_state))) = []
   \<and> process_entry e1 retry_once_state = (Inserted, inserted_on_retry_state)
   \<and> slept (env inserted_on_retry_state) = [5]
   \<and> processed_page_ids (ck inserted_on_retry_state) = [''p1'']
   \<and> process_entry e1 retry_then_reject_state = (Failed, retried_state)
   \<and> slept (env retried_state) = [5]
   \<and> processed_page_ids (ck retried_state) = []"
proof -
  have h: "page_id e1 \<notin> set (processed_page_ids (ck locked_state))"
    "page_id e1 \<notin> set (processed_page_ids (ck failing_first_state))"
    "page_id e1 \<notin> set (processed_page_ids (ck retry_once_state))"
    "page_id e1 \<notin> set (processed_page_ids (ck retry_then_reject_state))"
    by (simp_all add: c6_defs default_checkpoint_def)
  have pe: "process_entry e1 s = (fst (process_entry e1 s), snd (process_entry e1 s))" for s
    by simp
  have perm: "insert_entry_to_shard e1 (shard_manager failing_first_state)
      (env failing_first_state) = (Some IntegrityError, mig_router, mig_world\<lparr>faults := []\<rparr>)"
    by (simp add: eval_defs mig_defs c6_defs)
  have s0: "slept (env failing_first_state) = []"
    by (simp add: failing_first_state_def mig_world_def)
  note locked = retry_bounded_then_move_on [OF pe h(1), of "[e2]" 0]
  note first = retry_bounded_then_move_on [OF pe h(2), of es c]
  note once = retry_bounded_then_move_on [OF pe h(3), of es c]
  note reject = retry_bounded_then_move_on [OF pe h(4), of es c]
  have l1: "fst (process_entry e1 locked_state) = Failed
      \<and> snd (process_entry e1 locked_state)
          = locked_state\<lparr>shard_manager := mig_router, env := env gave_up_state\<rparr>"
    using locked locked_attempts by blast
  have l2: "locked_state\<lparr>shard_manager := mig_router, env := env gave_up_state\<rparr> = gave_up_state"
    by (simp add: c6_defs)
  have a: "process_entry e1 locked_state = (Failed, gave_up_state)"
    using l1 l2 by (simp add: prod_eq_iff)
  have b: "process_batch [e1, e2] 0 locked_state = process_batch [e2] 0 gave_up_state"
    using locked a by simp
  have f1: "fst (process_entry e1 failing_first_state) = Failed
      \<and> slept (env (snd (process_entry e1 failing_first_state))) = []"
    using first perm s0 by simp
  have lt: "Suc 0 < MAX_RETRIES" "Suc 0 \<le> MAX_RETRIES" by (simp_all add: MAX_RETRIES_def)
  have o1: "fst (process_entry e1 retry_once_state) = Inserted
      \<and> snd (process_entry e1 retry_once_state)
          = retry_once_state
              \<lparr>ck := (ck retry_once_state)\<lparr>processed_page_ids :=
                        processed_page_ids (ck retry_once_state) @ [page_id e1]\<rparr>,
                shard_manager := shard_manager inserted_on_retry_state,
                env := env inserted_on_retry_state\<rparr>"
    using once retry_once_attempts retry_once_insert lt by blast
  have o2: "retry_once_state
              \<lparr>ck := (ck retry_once_state)\<lparr>processed_page_ids :=
                        processed_page_ids (ck retry_once_state) @ [page_id e1]\<rparr>,
                shard_manager := shard_manager inserted_on_retry_state,
                env := env inserted_on_retry_state\<rparr> = inserted_on_retry_state"
    by (simp add: c6_defs default_checkpoint_def e1_def)
  have d: "process_entry e1 retry_once_state = (Inserted, inserted_on_retry_state)"
    using o1 o2 by (simp add: prod_eq_iff)
  have r1: "fst (process_entry e1 retry_then_reject_state) = Failed
      \<and> snd (process_entry e1 retry_then_reject_state)
          = retry_then_reject_state\<lparr>shard_manager := mig_router, env := env retried_state\<rparr>"
  proof -
    have "IntegrityError \<noteq> OperationalError \<and> IntegrityError \<noteq> KeyboardInterrupt" by simp
    with reject retry_then_reject_attempts retry_then_reject_insert lt show ?thesis by blast
  qed
  have r2: "retry_then_reject_state\<lparr>shard_manager := mig_router, env := env retried_state\<rparr>
      = retried_state"
    by (simp add: c6_defs)
  have g: "process_entry e1 retry_then_reject_state = (Failed, retried_state)"
    using r1 r2 by (simp add: prod_eq_iff)
  have vals: "slept (env gave_up_state) = slept (env locked_state) @ [5, 10, 15]"
    "processed_page_ids (ck gave_up_state) = processed_page_ids (ck locked_state)"
    "slept (env inserted_on_retry_state) = [5]"
    "processed_page_ids (ck inserted_on_retry_state) = [''p1'']"
    "slept (env retried_state) = [5]"
    "processed_page_ids (ck retried_state) = []"
    by (simp_all add: c6_defs mig_world_def default_checkpoint_def)
  show ?thesis using a b f1 d g vals by simp
qed

subsection \<open>Rebuilding the index\<close>

lemma rebuild_index_lookup:
  assumes "rebuild_index r w = (None, r', w')"
  shows "get_shard_for_page r' k
           = map_option (resolve w) (owner k (found (u_get_all_shard_paths r w) (faults w) w))"
proof -
  from assms obtain w1 where
    sc: "scan_all (u_get_all_shard_paths r w) (r\<lparr>page_to_shard := Map.empty\<rparr>) w = (None, r', w1)"
    by (auto simp: rebuild_index_def split: prod.splits option.splits)
  show ?thesis
    using scan_all_index [OF sc, of k] by (simp add: get_shard_for_page_def split: option.splits)
qed

lemma scan_all_completes:
  "Some KeyboardInterrupt \<notin> set (faults w) \<Longrightarrow> fst (scan_all ps r w) = None"
proof (induction ps arbitrary: r w)
  case Nil
  then show ?case by simp
next
  case (Cons p ps)
  obtain res w1 where sc: "scan_shard p w = (res, w1)" by (cases "scan_shard p w") auto
  note f1 = scan_shard_result [OF sc]
  have sub: "Some KeyboardInterrupt \<notin> set (faults w1)"
    using f1 Cons.prems by (cases "faults w") auto
  show ?case
  proof (cases res)
    case (Inr ks)
    obtain r2 w2 where ap: "add_pages ks p r w1 = (r2, w2)" by (cases "add_pages ks p r w1") auto
    have "Some KeyboardInterrupt \<notin> set (faults w2)" using add_pages_index [OF ap] sub by simp
    from Cons.IH [OF this] sc Inr ap show ?thesis by simp
  next
    case (Inl x)
    have "is_Exception x"
    proof (cases "faults w \<noteq> [] \<and> hd (faults w) \<noteq> None")
      case True
      then have "hd (faults w) \<in> set (faults w)" by simp
      with True f1 Inl Cons.prems show ?thesis
        by (cases "hd (faults w)") (auto simp: is_Exception_def)
    next
      case False
      with f1 Inl show ?thesis
        by (auto simp: is_Exception_def read_rows_def
            split: sum.splits option.splits db_content.splits if_splits)
    qed
    with Cons.IH [OF sub] sc Inl show ?thesis by simp
  qed
qed

lemma rebuild_index_completes:
  "Some KeyboardInterrupt \<notin> set (faults w) \<Longrightarrow> fst (rebuild_index r w) = None"
  using scan_all_completes [of w "u_get_all_shard_paths r w" "r\<lparr>page_to_shard := Map.empty\<rparr>"]
  by (auto simp: rebuild_index_def split: prod.splits option.splits)

lemma two_listing:
  "u_get_all_shard_paths mig_router two_shard_world
     = [''data/changelog_2026_10.db'', ''data/changelog_2026_11.db'']"
  by (simp add: u_get_all_shard_paths_def two_shard_world_def mig_router_def
      resolve_def name_in_def is_shard_name_def startswith_def endswith_def join_def)

lemma locked_two_listing:
  "u_get_all_shard_paths mig_router locked_two_shard_world
     = [''data/changelog_2026_10.db'', ''data/changelog_2026_11.db'']"
  by (simp add: u_get_all_shard_paths_def two_shard_world_def locked_two_shard_world_def
      mig_router_def resolve_def name_in_def is_shard_name_def startswith_def endswith_def join_def)

lemma two_rows:
  "read_rows ''data/changelog_2026_10.db'' two_shard_world = Inr [e1, e2]"
  "read_rows ''data/changelog_2026_11.db'' two_shard_world = Inr [e2]"
  by (simp_all add: read_rows_def stat_def resolve_def two_shard_world_def)

lemma locked_two_rows:
  "read_rows ''data/changelog_2026_10.db'' locked_two_shard_world = Inr [e1, e2]"
  "read_rows ''data/changelog_2026_11.db'' locked_two_shard_world = Inr [e2]"
  by (simp_all add: read_rows_def stat_def resolve_def two_shard_world_def locked_two_shard_world_def)

text \<open>
  C4, as the code has it. When \<open>rebuild_index\<close> completes, the index maps a key to the
  normalised path of the last shard, in listing order, among the shards whose scan
  succeeded and found the key; so the index has an entry for a key exactly when some
  successful scan found it, and a key found in one scanned shard only is mapped to exactly
  that shard. A shard whose scan raises is logged and left out.
\<close>

theorem rebuild_index_covers_scanned_shards:
  assumes "rebuild_index r w = (None, r', w')"
  shows "get_shard_for_page r' k
           = map_option (resolve w) (owner k (found (u_get_all_shard_paths r w) (faults w) w))
       \<and> ((get_shard_for_page r' k \<noteq> None)
            = (\<exists>(p, ks) \<in> set (found (u_get_all_shard_paths r w) (faults w) w). k \<in> set ks))
       \<and> ((p, ks) \<in> set (found (u_get_all_shard_paths r w) (faults w) w) \<and> k \<in> set ks
            \<and> (\<forall>(q, ks') \<in> set (found (u_get_all_shard_paths r w) (faults w) w).
                   k \<in> set ks' \<longrightarrow> q = p)
           \<longrightarrow> get_shard_for_page r' k = Some (resolve w p))"
proof -
  let ?F = "found (u_get_all_shard_paths r w) (faults w) w"
  note eq = rebuild_index_lookup [OF assms, of k]
  have dom: "(get_shard_for_page r' k \<noteq> None) = (\<exists>(p, ks) \<in> set ?F. k \<in> set ks)"
    unfolding eq using owner_None [of k ?F] by auto
  have uniq: "(p, ks) \<in> set ?F \<and> k \<in> set ks
            \<and> (\<forall>(q, ks') \<in> set ?F. k \<in> set ks' \<longrightarrow> q = p)
           \<longrightarrow> get_shard_for_page r' k = Some (resolve w p)"
  proof
    assume h: "(p, ks) \<in> set ?F \<and> k \<in> set ks \<and> (\<forall>(q, ks') \<in> set ?F. k \<in> set ks' \<longrightarrow> q = p)"
    then have "owner k ?F \<noteq> None" using owner_None [of k ?F] by auto
    then obtain q where q: "owner k ?F = Some q" by auto
    from owner_Some [OF q] obtain ks2 where "(q, ks2) \<in> set ?F" "k \<in> set ks2" by blast
    with h have "q = p" by blast
    with q eq show "get_shard_for_page r' k = Some (resolve w p)" by simp
  qed
  show ?thesis by (intro conjI eq dom uniq)
qed

theorem rebuild_index_covers_scanned_shards_witness:
  "get_shard_for_page (fst (snd (rebuild_index mig_router two_shard_world))) ''p1''
     = Some ''/srv/data/changelog_2026_10.db''
   \<and> get_shard_for_page (fst (snd (rebuild_index mig_router two_shard_world))) ''p3'' = None"
proof -
  let ?R = "rebuild_index mig_router two_shard_world"
  have "fst ?R = None"
    by (rule rebuild_index_completes) (simp add: two_shard_world_def)
  then have run: "?R = (None, fst (snd ?R), snd (snd ?R))"
    by (cases ?R) simp
  have F: "found (u_get_all_shard_paths mig_router two_shard_world) (faults two_shard_world)
             two_shard_world
           = [(''data/changelog_2026_10.db'', [''p1'', ''p2'']),
              (''data/changelog_2026_11.db'', [''p2''])]"
    unfolding two_listing using two_rows
    by (simp add: two_shard_world_def e1_def e2_def)
  have rs: "resolve two_shard_world ''data/changelog_2026_10.db'' = ''/srv/data/changelog_2026_10.db''"
    by (simp add: resolve_def two_shard_world_def)
  show ?thesis
    using rebuild_index_covers_scanned_shards
        [OF run, of "''p1''" "''data/changelog_2026_10.db''" "[''p1'', ''p2'']"]
      rebuild_index_covers_scanned_shards [OF run, of "''p3''" p ks]
    unfolding F by (simp add: rs)
qed

text \<open>
  C4, as stated, fails: here the October shard holds \<open>p1\<close> and \<open>p2\<close>, the November
  shard holds \<open>p2\<close>, and the scan of the October shard raises \<open>OperationalError\<close>. The
  rebuild completes; \<open>p1\<close> is present in a shard but has no index entry, and \<open>p2\<close> is
  present in two shards.
\<close>

theorem rebuild_index_misses_locked_shard:
  "read_rows ''data/changelog_2026_10.db'' locked_two_shard_world = Inr [e1, e2]
   \<and> read_rows ''data/changelog_2026_11.db'' locked_two_shard_world = Inr [e2]
   \<and> page_id e1 = ''p1'' \<and> page_id e2 = ''p2''
   \<and> fst (rebuild_index mig_router locked_two_shard_world) = None
   \<and> get_shard_for_page (fst (snd (rebuild_index mig_router locked_two_shard_world))) ''p1'' = None
   \<and> get_shard_for_page (fst (snd (rebuild_index mig_router locked_two_shard_world))) ''p2''
       = Some ''/srv/data/changelog_2026_11.db''"
proof -
  let ?R = "rebuild_index mig_router locked_two_shard_world"
  have fin: "fst ?R = None"
    by (rule rebuild_index_completes) (simp add: two_shard_world_def locked_two_shard_world_def)
  then have run: "?R = (None, fst (snd ?R), snd (snd ?R))"
    by (cases ?R) simp
  have F: "found (u_get_all_shard_paths mig_router locked_two_shard_world)
             (faults locked_two_shard_world) locked_two_shard_world
           = [(''data/changelog_2026_11.db'', [''p2''])]"
    unfolding locked_two_listing using locked_two_rows
    by (simp add: two_shard_world_def locked_two_shard_world_def e2_def)
  have rs: "resolve locked_two_shard_world ''data/changelog_2026_11.db''
      = ''/srv/data/changelog_2026_11.db''"
    by (simp add: resolve_def two_shard_world_def locked_two_shard_world_def)
  show ?thesis
    using rebuild_index_lookup [OF run, of "''p1''"] rebuild_index_lookup [OF run, of "''p2''"]
      locked_two_rows fin
    unfolding F by (simp add: rs e1_def e2_def)
qed

subsection \<open>Evaluation of the runs\<close>

lemma first_batch_run:
  "run_batch mig_args 0 1 failing_first_state = (None, after_first_batch)"
  by (simp add: eval_defs mig_defs failing_first_state_def after_first_batch_def)

lemma first_batch_outcomes:
  "outcomes [e1, e2] failing_first_state = [Failed, Inserted]"
  by (simp add: eval_defs mig_defs failing_first_state_def)


lemma resumed_run_completes:
  "run_summary ''/srv/data/migration_checkpoint.json''
     (migrate_database (Suc (Suc (Suc 0))) mig_args None after_interrupt_world)
     = Some (Completed, [(2, 3, [''p1'', ''p2'', ''p3''], Written)], None)"
  by (simp add: eval_defs mig_defs c3_defs)

lemma first_run:
  "migrate_database (Suc (Suc 0)) big_args None oct_world
     = Some (Completed,
             [(\<lparr>last_batch = 1, entries_processed = 1, last_timestamp = now oct_world,
                 processed_page_ids = [''p1''], current_shard = ''data/changelog_2026_10.db''\<rparr>,
               Written)],
             Some \<lparr>base_path = ''data'', shard_size_limit_bytes = 1048576,
                    page_to_shard = [''p1'' \<mapsto> ''/srv/data/changelog_2026_10.db''],
                    current_shard_path = ''data/changelog_2026_10.db''\<rparr>,
             after_first_run)"
  by (simp add: eval_defs c2_defs)

lemma second_run:
  "migrate_database (Suc (Suc 0)) big_args None second_run_world
     = Some (Completed,
             [(\<lparr>last_batch = 1, entries_processed = 1, last_timestamp = now second_run_world,
                 processed_page_ids = [''p1''], current_shard = ''data/changelog_2026_11.db''\<rparr>,
               Written)],
             Some \<lparr>base_path = ''data'', shard_size_limit_bytes = 1048576,
                    page_to_shard = [''p1'' \<mapsto> ''/srv/data/changelog_2026_11.db''],
                    current_shard_path = ''data/changelog_2026_11.db''\<rparr>,
             after_second_run)"
  by (simp add: eval_defs c2_defs after_second_run_def)

subsection \<open>The checkpoint after a batch\<close>

text \<open>
  C5, as the code has it. After a batch the runner sets \<open>entries_processed\<close> to the source
  offset at which the batch started plus the number of records of the batch that were
  inserted or skipped as already processed (failed records are not counted), and
  \<open>last_batch\<close> to the batch number; that checkpoint is the one handed to
  \<open>save_checkpoint\<close>, and the loop goes on at \<open>offset + batch_size\<close> with the next batch
  number, whatever the count was.
\<close>

theorem checkpoint_counts_from_batch_offset:
  assumes "run_batch a offset batch_num s = (None, s1)"
  shows "(\<exists>entries. get_entries_batch (source_path a) offset (batch_size a) (env s) = Inr entries
            \<and> entries_processed (ck s1)
                = offset + int (length (filter counted (outcomes entries s))))
       \<and> last_batch (ck s1) = batch_num
       \<and> (offset < tot \<and> tot \<noteq> 0
            \<and> pause_after (batch_num + 1)
                 (save_checkpoint (ck s1) (checkpoint_path a) (env s1)) = (None, w3)
           \<longrightarrow> migrate_loop (Suc fuel) a tot offset batch_num s
                = map_option (\<lambda>(res, hist, s'). (res, (ck s1, fst (next_write (env s1))) # hist, s'))
                    (migrate_loop fuel a tot (offset + batch_size a) (batch_num + 1)
                       (s1\<lparr>env := w3\<rparr>)))"
  using run_batch_checkpoint [OF assms] assms by (auto simp: Let_def)

theorem checkpoint_counts_from_batch_offset_witness:
  "run_batch mig_args 0 1 failing_first_state = (None, after_first_batch)
   \<and> get_entries_batch (source_path mig_args) 0 (batch_size mig_args) (env failing_first_state)
       = Inr [e1, e2]
   \<and> outcomes [e1, e2] failing_first_state = [Failed, Inserted]
   \<and> entries_processed (ck after_first_batch) = 0 + 1
   \<and> last_batch (ck after_first_batch) = 1
   \<and> migrate_loop (Suc 0) mig_args 3 0 1 failing_first_state = None"
proof -
  let ?w2 = "save_checkpoint (ck after_first_batch) (checkpoint_path mig_args) (env after_first_batch)"
  have ge: "get_entries_batch (source_path mig_args) 0 (batch_size mig_args) (env failing_first_state)
       = Inr [e1, e2]"
    by (simp add: eval_defs mig_defs failing_first_state_def)
  have pa: "pause_after (1 + 1) ?w2 = (None, snd (pause_after (1 + 1) ?w2))"
    by (simp add: eval_defs mig_defs after_first_batch_def)
  show ?thesis
    using checkpoint_counts_from_batch_offset
        [OF first_batch_run, of 3 "snd (pause_after (1 + 1) ?w2)" 0]
      first_batch_run ge first_batch_outcomes pa
    by (simp add: after_first_batch_def)
qed

text \<open>
  C5, as stated, fails: three records, batch size 2, and the insertion of the first record
  fails for good. Batch 1 saves \<open>entries_processed = 1\<close> (one success); batch 2 has one
  success (\<open>p3\<close>), no skipped and no failed record, and saves \<open>entries_processed = 3\<close>:
  an increment of 2.
\<close>

theorem entries_processed_not_success_count:
  "loop_summary (migrate_loop (Suc (Suc (Suc 0))) mig_args 3 0 1 failing_first_state)
     = Some (None, [(1, 1, [''p2''], Written), (2, 3, [''p2'', ''p3''], Written)])"
  by (simp add: eval_defs mig_defs failing_first_state_def)

subsection \<open>Interruption and resumption\<close>




subsection \<open>Running the migration twice\<close>

text \<open>
  C2. The October run completes and stores \<open>p1\<close> in \<open>changelog_2026_10.db\<close>, which then
  measures more than the limit; its checkpoint file is removed. The November run starts
  afresh, binds a new shard \<open>changelog_2026_11.db\<close>, looks for \<open>p1\<close> in that shard only,
  and inserts it: after the second run \<open>p1\<close> is in both shards.
\<close>

theorem second_run_duplicates_key_across_shards:
  "map_option fst (migrate_database (Suc (Suc 0)) big_args None oct_world) = Some Completed
   \<and> final_world (migrate_database (Suc (Suc 0)) big_args None oct_world) = Some after_first_run
   \<and> keys_of_shard ''data/changelog_2026_10.db'' (Some after_first_run) = Some [''p1'']
   \<and> keys_of_shard ''data/changelog_2026_11.db'' (Some after_first_run) = None
   \<and> map_option fst (migrate_database (Suc (Suc 0)) big_args None second_run_world) = Some Completed
   \<and> keys_of_shard ''data/changelog_2026_10.db''
        (final_world (migrate_database (Suc (Suc 0)) big_args None second_run_world)) = Some [''p1'']
   \<and> keys_of_shard ''data/changelog_2026_11.db''
        (final_world (migrate_database (Suc (Suc 0)) big_args None second_run_world)) = Some [''p1'']"
  unfolding first_run second_run
  by (simp add: final_world_def keys_of_shard_def read_rows_def stat_def resolve_def
      after_first_run_def after_second_run_def second_run_world_def oct_world_def big1_def)

end
